theory Spec2Isabelle
  imports Main "HOL-Library.Word" "HOL-Library.Signed_Division"
begin

section \<open>Data model of package proxydial\<close>

text \<open>
  The embedding follows the package's dialer source (the revision with the four
  classification flags) and its port parser, which is copied from go/src/net.

  Go values are modelled as follows.
  \<^item> \<open>net.IP\<close> is a byte slice: a list of 8-bit words.
  \<^item> \<open>*net.IPNet\<close> is the struct with its two byte slices.
  \<^item> \<open>int16\<close> is a 16-bit word, read as two's complement by \<open>sint\<close>.
  \<^item> \<open>time.Duration\<close> is a count of nanoseconds and \<open>time.Time\<close> is the number of
    nanoseconds since the zero instant (so \<open>IsZero\<close> is equality with 0); both are
    integers, and \<open>Time.Sub\<close> saturates at the ends of the 64-bit range as the
    time package documents.
  \<^item> a Go \<open>error\<close> is a value of the datatype \<open>error\<close>; \<open>fmt.Errorf\<close> yields
    an error that carries the formatted text.
  \<^item> a function returning \<open>(x, error)\<close> returns a sum, \<open>Inl\<close> the error.
  \<^item> a run-time panic is the outcome \<open>Panic\<close>.
\<close>

type_synonym byte = "8 word"
type_synonym IP = "byte list"
type_synonym int16 = "16 word"
type_synonym Duration = int
type_synonym Time = int
type_synonym Conn = nat
type_synonym Addr = string

record IPNet =
  net_IP :: IP
  net_Mask :: "byte list"

datatype error =
    Errorf string
  | AddrError string string
  | NetError string

datatype 'a go = Return 'a | Panic string

record Dialer =
  AllowedNets :: "string list"
  AllowedPorts :: "int16 list"
  BlockedRanges :: "IPNet list"
  BlockPrivate :: bool
  BlockLinkLocal :: bool
  BlockMulticast :: bool
  BlockUnspecified :: bool
  Timeout :: Duration
  Deadline :: Time
  KeepAlive :: Duration
  LocalAddr :: "Addr option"

text \<open>The standard library's \<open>net.Dialer\<close>, of which only these four fields are set.\<close>

record net_Dialer =
  nd_Timeout :: Duration
  nd_Deadline :: Time
  nd_KeepAlive :: Duration
  nd_LocalAddr :: "Addr option"

section \<open>The collaborators outside the package\<close>

text \<open>
  The pure functions of Go's standard library that the package calls are parameters of
  the model: nothing is assumed about them.
\<close>

record stdlib =
  ParseCIDR :: "string \<Rightarrow> error + (IP \<times> IPNet)"
  Contains :: "IPNet \<Rightarrow> IP \<Rightarrow> bool"
  IsPrivate :: "IP \<Rightarrow> bool"
  IsLoopback :: "IP \<Rightarrow> bool"
  IsLinkLocalUnicast :: "IP \<Rightarrow> bool"
  IsLinkLocalMulticast :: "IP \<Rightarrow> bool"
  IsMulticast :: "IP \<Rightarrow> bool"
  IsInterfaceLocalMulticast :: "IP \<Rightarrow> bool"
  IsUnspecified :: "IP \<Rightarrow> bool"
  IP_String :: "IP \<Rightarrow> string"
  SplitHostPort :: "string \<Rightarrow> error + (string \<times> string)"
  JoinHostPort :: "string \<Rightarrow> string \<Rightarrow> string"
  Itoa :: "int \<Rightarrow> string"

text \<open>
  The world a dial runs in: the service-name lookup, the resolver, the standard
  library's dialer and the clock. The dialer's answer may depend on the ordinal of the
  attempt within the call, and the clock's on the ordinal of the reading.
\<close>

record world =
  LookupPort :: "string \<Rightarrow> string \<Rightarrow> error + int"
  LookupIP :: "string \<Rightarrow> error + IP list"
  net_Dial :: "nat \<Rightarrow> net_Dialer \<Rightarrow> string \<Rightarrow> string \<Rightarrow> error + Conn"
  Now :: "nat \<Rightarrow> Time"

text \<open>The calls that leave the process, in the order they are made.\<close>

datatype event =
    LookupPort_call string string
  | LookupIP_call string
  | Dial_call net_Dialer string string

section \<open>Package time, as far as the dialer uses it\<close>

definition Second :: Duration where
  "Second = 1000000000"

definition maxDuration :: Duration where
  "maxDuration = 2 ^ 63 - 1"

definition minDuration :: Duration where
  "minDuration = - (2 ^ 63)"

definition IsZero :: "Time \<Rightarrow> bool" where
  "IsZero t = (t = 0)"

definition Before :: "Time \<Rightarrow> Time \<Rightarrow> bool" where
  "Before t u = (t < u)"

definition Time_Add :: "Time \<Rightarrow> Duration \<Rightarrow> Time" where
  "Time_Add t d = t + d"

definition Time_Sub :: "Time \<Rightarrow> Time \<Rightarrow> Duration" where
  "Time_Sub t u =
     (if t - u < minDuration then minDuration
      else if maxDuration < t - u then maxDuration
      else t - u)"

section \<open>The policy predicates\<close>

fun allowedNet_loop :: "string list \<Rightarrow> string \<Rightarrow> bool" where
  "allowedNet_loop [] network = False"
| "allowedNet_loop (n # ns) network =
     (if n = network then True else allowedNet_loop ns network)"

definition allowedNet :: "Dialer \<Rightarrow> string \<Rightarrow> bool" where
  "allowedNet d network = allowedNet_loop (AllowedNets d) network"

fun allowedPort_loop :: "int16 list \<Rightarrow> int16 \<Rightarrow> bool" where
  "allowedPort_loop [] port = False"
| "allowedPort_loop (p # ps) port =
     (if p = port then True else allowedPort_loop ps port)"

definition allowedPort :: "Dialer \<Rightarrow> int16 \<Rightarrow> bool" where
  "allowedPort d port = allowedPort_loop (AllowedPorts d) port"

fun allowedIP_loop :: "stdlib \<Rightarrow> IPNet list \<Rightarrow> IP \<Rightarrow> bool" where
  "allowedIP_loop L [] ip = True"
| "allowedIP_loop L (netrange # rs) ip =
     (if Contains L netrange ip then False else allowedIP_loop L rs ip)"

definition allowedIP :: "stdlib \<Rightarrow> Dialer \<Rightarrow> IP \<Rightarrow> bool" where
  "allowedIP L d ip =
     (if BlockPrivate d \<and> (IsPrivate L ip \<or> IsLoopback L ip) then False
      else if BlockLinkLocal d \<and> (IsLinkLocalUnicast L ip \<or> IsLinkLocalMulticast L ip)
        then False
      else if BlockMulticast d \<and> (IsMulticast L ip \<or> IsInterfaceLocalMulticast L ip)
        then False
      else if BlockUnspecified d \<and> IsUnspecified L ip then False
      else allowedIP_loop L (BlockedRanges d) ip)"

text \<open>The conversion \<open>int16(portnum)\<close> keeps the low sixteen bits.\<close>

definition to_int16 :: "int \<Rightarrow> int16" where
  "to_int16 p = word_of_int p"

section \<open>The port parser\<close>

definition big :: int where
  "big = 0xFFFFFF"

definition is_digit :: "char \<Rightarrow> bool" where
  "is_digit c = (48 \<le> (of_char c :: nat) \<and> (of_char c :: nat) \<le> 57)"

definition digit_val :: "char \<Rightarrow> int" where
  "digit_val c = int (of_char c) - 48"

text \<open>
  The loop of \<open>dtoi\<close> over the bytes from offset \<open>i\<close> on: \<open>Inl\<close> is the return
  from inside the loop (the number reached \<open>big\<close>), \<open>Inr\<close> the state at loop exit.
\<close>

fun dtoi_loop :: "string \<Rightarrow> int \<Rightarrow> nat \<Rightarrow> (int \<times> nat \<times> bool) + (int \<times> nat)" where
  "dtoi_loop [] n i = Inr (n, i)"
| "dtoi_loop (c # cs) n i =
     (if is_digit c then
        (let n' = n * 10 + digit_val c in
         if big \<le> n' then Inl (0, i, False) else dtoi_loop cs n' (i + 1))
      else Inr (n, i))"

definition dtoi :: "string \<Rightarrow> nat \<Rightarrow> int \<times> nat \<times> bool" where
  "dtoi s i0 =
     (case dtoi_loop (drop i0 s) 0 i0 of
        Inl r \<Rightarrow> r
      | Inr (n, i) \<Rightarrow> if i = i0 then (0, i, False) else (n, i, True))"

definition parsePort_range :: "string \<Rightarrow> int \<Rightarrow> error + int" where
  "parsePort_range port p =
     (if p < 0 \<or> 0xFFFF < p then Inl (AddrError ''invalid port'' port) else Inr p)"

definition parsePort :: "world \<Rightarrow> string \<Rightarrow> string \<Rightarrow> (error + int) \<times> event list" where
  "parsePort W network port =
     (case dtoi port 0 of
        (p, i, ok) \<Rightarrow>
          if \<not> ok \<or> i \<noteq> length port then
            (case LookupPort W network port of
               Inl err \<Rightarrow> (Inl err, [LookupPort_call network port])
             | Inr p' \<Rightarrow> (parsePort_range port p', [LookupPort_call network port]))
          else (parsePort_range port p, []))"

section \<open>The serial connector\<close>

text \<open>
  The local variable \<open>dialer\<close> of \<open>dialSerial\<close> when the loop starts, for \<open>n\<close>
  candidates. Dividing by \<open>time.Duration(len(ips))\<close> panics when the list is empty.
  The first component of the inner pair counts the clock readings made so far.
\<close>

definition dialSerial_dialer :: "world \<Rightarrow> Dialer \<Rightarrow> nat \<Rightarrow> net_Dialer go" where
  "dialSerial_dialer W d n =
     (let dialer = \<lparr>nd_Timeout = Timeout d, nd_Deadline = Deadline d,
                     nd_KeepAlive = KeepAlive d, nd_LocalAddr = LocalAddr d\<rparr>;
          (k, dialer) =
            (if 0 < nd_Timeout dialer then
               (let newDeadline = Time_Add (Now W 0) (nd_Timeout dialer) in
                if IsZero (nd_Deadline dialer) \<or> Before newDeadline (Deadline d)
                then (Suc 0, dialer\<lparr>nd_Deadline := newDeadline\<rparr>)
                else (Suc 0, dialer))
             else (0, dialer))
      in if \<not> IsZero (nd_Deadline dialer) then
           (let totalTime = Time_Sub (nd_Deadline dialer) (Now W k) in
            if n = 0 then Panic ''runtime error: integer divide by zero''
            else
              (let newTimeout = totalTime sdiv int n;
                   newTimeout = (if newTimeout < 2 * Second then 2 * Second else newTimeout)
               in if nd_Timeout dialer = 0 \<or> newTimeout < nd_Timeout dialer
                  then Return (dialer\<lparr>nd_Timeout := newTimeout\<rparr>)
                  else Return dialer))
         else Return dialer)"

text \<open>
  The loop over the candidates: \<open>i\<close> is the ordinal of the attempt and \<open>firstErr\<close>
  the error kept so far. \<open>Inr\<close> is the return of a connection from inside the loop,
  \<open>Inl\<close> the value of \<open>firstErr\<close> at loop exit.
\<close>

fun dialSerial_loop ::
  "stdlib \<Rightarrow> world \<Rightarrow> net_Dialer \<Rightarrow> string \<Rightarrow> string \<Rightarrow> nat \<Rightarrow> error option \<Rightarrow> IP list
     \<Rightarrow> (error option + Conn) \<times> event list" where
  "dialSerial_loop L W dialer network port i firstErr [] = (Inl firstErr, [])"
| "dialSerial_loop L W dialer network port i firstErr (ip # ips) =
     (let address = JoinHostPort L (IP_String L ip) port in
      case net_Dial W i dialer network address of
        Inl err \<Rightarrow>
          (let (r, evs) =
             dialSerial_loop L W dialer network port (Suc i)
               (if firstErr = None then Some err else firstErr) ips
           in (r, Dial_call dialer network address # evs))
      | Inr conn \<Rightarrow> (Inr conn, [Dial_call dialer network address]))"

definition dialSerial ::
  "stdlib \<Rightarrow> world \<Rightarrow> Dialer \<Rightarrow> string \<Rightarrow> string \<Rightarrow> IP list \<Rightarrow> string
     \<Rightarrow> (error + Conn) go \<times> event list" where
  "dialSerial L W d network addr ips port =
     (case dialSerial_dialer W d (length ips) of
        Panic msg \<Rightarrow> (Panic msg, [])
      | Return dialer \<Rightarrow>
          (case dialSerial_loop L W dialer network port 0 None ips of
             (Inr conn, evs) \<Rightarrow> (Return (Inr conn), evs)
           | (Inl (Some firstErr), evs) \<Rightarrow> (Return (Inl firstErr), evs)
           | (Inl None, evs) \<Rightarrow>
               (Return (Inl (Errorf (''dialer.Dial no IP addresses found: '' @ addr))), evs)))"

section \<open>Dial\<close>

text \<open>The loop of \<open>Dial\<close> over the resolved addresses: the first one that is not allowed.\<close>

fun Dial_blocked :: "stdlib \<Rightarrow> Dialer \<Rightarrow> IP list \<Rightarrow> IP option" where
  "Dial_blocked L d [] = None"
| "Dial_blocked L d (ip # ips) =
     (if \<not> allowedIP L d ip then Some ip else Dial_blocked L d ips)"

definition invalid_net_text :: "string \<Rightarrow> string \<Rightarrow> string" where
  "invalid_net_text network addr = ''dialer.Dial '' @ network @ '' '' @ addr @ '': invalid net''"

definition blocked_port_text :: "string \<Rightarrow> string" where
  "blocked_port_text addr = ''dialer.Dial '' @ addr @ '': blocked port''"

definition blocked_range_text :: "stdlib \<Rightarrow> string \<Rightarrow> IP \<Rightarrow> string" where
  "blocked_range_text L addr ip =
     ''dialer.Dial '' @ addr @ '': blocked range ('' @ IP_String L ip @ '')''"

definition Dial ::
  "stdlib \<Rightarrow> world \<Rightarrow> Dialer \<Rightarrow> string \<Rightarrow> string \<Rightarrow> (error + Conn) go \<times> event list" where
  "Dial L W d network addr =
     (if \<not> allowedNet d network then
        (Return (Inl (Errorf (invalid_net_text network addr))), [])
      else
        (case SplitHostPort L addr of
           Inl err \<Rightarrow> (Return (Inl err), [])
         | Inr (host, port) \<Rightarrow>
             (case parsePort W network port of
                (Inl err, evs) \<Rightarrow> (Return (Inl err), evs)
              | (Inr portnum, evs) \<Rightarrow>
                  if \<not> allowedPort d (to_int16 portnum) then
                    (Return (Inl (Errorf (blocked_port_text addr))), evs)
                  else
                    (case LookupIP W host of
                       Inl err \<Rightarrow> (Return (Inl err), evs @ [LookupIP_call host])
                     | Inr ips \<Rightarrow>
                         (case Dial_blocked L d ips of
                            Some ip \<Rightarrow>
                              (Return (Inl (Errorf (blocked_range_text L addr ip))),
                               evs @ [LookupIP_call host])
                          | None \<Rightarrow>
                              (let (r, evs') =
                                 dialSerial L W d network addr ips (Itoa L portnum)
                               in (r, evs @ [LookupIP_call host] @ evs')))))))"

section \<open>The default policy\<close>

definition cidrRange :: "stdlib \<Rightarrow> string \<Rightarrow> IPNet go" where
  "cidrRange L str =
     (case ParseCIDR L str of
        Inl err \<Rightarrow> Panic ''ParseCIDR''
      | Inr (ip, net) \<Rightarrow> Return net)"

text \<open>The elements of a slice literal are evaluated in order; the first panic ends it.\<close>

fun cidrRanges :: "stdlib \<Rightarrow> string list \<Rightarrow> IPNet list go" where
  "cidrRanges L [] = Return []"
| "cidrRanges L (s # ss) =
     (case cidrRange L s of
        Panic msg \<Rightarrow> Panic msg
      | Return n \<Rightarrow>
          (case cidrRanges L ss of Panic msg \<Rightarrow> Panic msg | Return ns \<Rightarrow> Return (n # ns)))"

definition DefaultDialer :: "stdlib \<Rightarrow> Dialer go" where
  "DefaultDialer L =
     (case cidrRanges L
        [''0.0.0.0/8'',
         ''10.0.0.0/8'',
         ''100.64.0.0/10'',
         ''127.0.0.0/8'',
         ''169.254.0.0/16'',
         ''172.16.0.0/12'',
         ''192.0.0.0/24'',
         ''192.0.2.0/24'',
         ''192.88.99.0/24'',
         ''192.168.0.0/16'',
         ''198.18.0.0/15'',
         ''198.51.100.0/24'',
         ''203.0.113.0/24'',
         ''224.0.0.0/4'',
         ''240.0.0.0/4'',
         ''255.255.255.255/32'',
         ''::/128'',
         ''::1/128'',
         ''100::/64'',
         ''64:ff9b::/96'',
         ''2001::/32'',
         ''2001:10::/28'',
         ''2001:20::/28'',
         ''2001:db8::/32'',
         ''2002::/16'',
         ''fc00::/7'',
         ''fe80::/10'',
         ''ff00::/8'']
      of
        Panic msg \<Rightarrow> Panic msg
      | Return ranges \<Rightarrow>
          Return \<lparr>AllowedNets = [''tcp''],
                  AllowedPorts = [80, 443, 8080, 8443],
                  BlockedRanges = ranges,
                  BlockPrivate = True,
                  BlockLinkLocal = True,
                  BlockMulticast = True,
                  BlockUnspecified = True,
                  Timeout = 0,
                  Deadline = 0,
                  KeepAlive = 0,
                  LocalAddr = None\<rparr>)"

section \<open>Reading a trace\<close>

fun is_Dial_call :: "event \<Rightarrow> bool" where
  "is_Dial_call (Dial_call dialer network address) = True"
| "is_Dial_call (LookupPort_call network service) = False"
| "is_Dial_call (LookupIP_call host) = False"

fun is_LookupIP_call :: "event \<Rightarrow> bool" where
  "is_LookupIP_call (LookupIP_call host) = True"
| "is_LookupIP_call (LookupPort_call network service) = False"
| "is_LookupIP_call (Dial_call dialer network address) = False"

text \<open>The connection attempts, and the resolver calls, of a trace.\<close>

definition dial_calls :: "event list \<Rightarrow> event list" where
  "dial_calls evs = filter is_Dial_call evs"

definition lookup_calls :: "event list \<Rightarrow> event list" where
  "lookup_calls evs = filter is_LookupIP_call evs"

text \<open>
  The rank of a call in the linear order of \<open>Dial\<close>: port parsing, then resolution,
  then connecting.
\<close>

fun stage :: "event \<Rightarrow> nat" where
  "stage (LookupPort_call network service) = 0"
| "stage (LookupIP_call host) = 1"
| "stage (Dial_call dialer network address) = 2"

text \<open>
  What attempt number \<open>i\<close> of the serial connector on candidate \<open>ip\<close> answers, and the
  call it leaves in the trace.
\<close>

definition attempt ::
  "stdlib \<Rightarrow> world \<Rightarrow> net_Dialer \<Rightarrow> string \<Rightarrow> string \<Rightarrow> nat \<Rightarrow> IP \<Rightarrow> error + Conn" where
  "attempt L W dialer network port i ip =
     net_Dial W i dialer network (JoinHostPort L (IP_String L ip) port)"

definition attempt_call :: "stdlib \<Rightarrow> net_Dialer \<Rightarrow> string \<Rightarrow> string \<Rightarrow> IP \<Rightarrow> event" where
  "attempt_call L dialer network port ip =
     Dial_call dialer network (JoinHostPort L (IP_String L ip) port)"

section \<open>The earlier revision of the dialer\<close>

text \<open>
  The source tree also holds an earlier revision of the dialer, under the package name
  proxydialer. Its \<open>Dialer\<close> has no classification flags, its \<open>allowedIP\<close> is the
  range loop alone, and the fifth range of its default policy differs; the functions
  \<open>allowedNet\<close>, \<open>allowedPort\<close>, \<open>dialSerial\<close> and \<open>Dial\<close> are the same text as in
  the later revision, read over the smaller struct.
\<close>

record proxydialer_Dialer =
  pd_AllowedNets :: "string list"
  pd_AllowedPorts :: "int16 list"
  pd_BlockedRanges :: "IPNet list"
  pd_Timeout :: Duration
  pd_Deadline :: Time
  pd_KeepAlive :: Duration
  pd_LocalAddr :: "Addr option"

definition proxydialer_allowedNet :: "proxydialer_Dialer \<Rightarrow> string \<Rightarrow> bool" where
  "proxydialer_allowedNet d network = allowedNet_loop (pd_AllowedNets d) network"

definition proxydialer_allowedPort :: "proxydialer_Dialer \<Rightarrow> int16 \<Rightarrow> bool" where
  "proxydialer_allowedPort d port = allowedPort_loop (pd_AllowedPorts d) port"

definition proxydialer_allowedIP :: "stdlib \<Rightarrow> proxydialer_Dialer \<Rightarrow> IP \<Rightarrow> bool" where
  "proxydialer_allowedIP L d ip = allowedIP_loop L (pd_BlockedRanges d) ip"

definition proxydialer_dialSerial_dialer ::
  "world \<Rightarrow> proxydialer_Dialer \<Rightarrow> nat \<Rightarrow> net_Dialer go" where
  "proxydialer_dialSerial_dialer W d n =
     (let dialer = \<lparr>nd_Timeout = pd_Timeout d, nd_Deadline = pd_Deadline d,
                     nd_KeepAlive = pd_KeepAlive d, nd_LocalAddr = pd_LocalAddr d\<rparr>;
          (k, dialer) =
            (if 0 < nd_Timeout dialer then
               (let newDeadline = Time_Add (Now W 0) (nd_Timeout dialer) in
                if IsZero (nd_Deadline dialer) \<or> Before newDeadline (pd_Deadline d)
                then (Suc 0, dialer\<lparr>nd_Deadline := newDeadline\<rparr>)
                else (Suc 0, dialer))
             else (0, dialer))
      in if \<not> IsZero (nd_Deadline dialer) then
           (let totalTime = Time_Sub (nd_Deadline dialer) (Now W k) in
            if n = 0 then Panic ''runtime error: integer divide by zero''
            else
              (let newTimeout = totalTime sdiv int n;
                   newTimeout = (if newTimeout < 2 * Second then 2 * Second else newTimeout)
               in if nd_Timeout dialer = 0 \<or> newTimeout < nd_Timeout dialer
                  then Return (dialer\<lparr>nd_Timeout := newTimeout\<rparr>)
                  else Return dialer))
         else Return dialer)"

definition proxydialer_dialSerial ::
  "stdlib \<Rightarrow> world \<Rightarrow> proxydialer_Dialer \<Rightarrow> string \<Rightarrow> string \<Rightarrow> IP list \<Rightarrow> string
     \<Rightarrow> (error + Conn) go \<times> event list" where
  "proxydialer_dialSerial L W d network addr ips port =
     (case proxydialer_dialSerial_dialer W d (length ips) of
        Panic msg \<Rightarrow> (Panic msg, [])
      | Return dialer \<Rightarrow>
          (case dialSerial_loop L W dialer network port 0 None ips of
             (Inr conn, evs) \<Rightarrow> (Return (Inr conn), evs)
           | (Inl (Some firstErr), evs) \<Rightarrow> (Return (Inl firstErr), evs)
           | (Inl None, evs) \<Rightarrow>
               (Return (Inl (Errorf (''dialer.Dial no IP addresses found: '' @ addr))), evs)))"

fun proxydialer_Dial_blocked :: "stdlib \<Rightarrow> proxydialer_Dialer \<Rightarrow> IP list \<Rightarrow> IP option" where
  "proxydialer_Dial_blocked L d [] = None"
| "proxydialer_Dial_blocked L d (ip # ips) =
     (if \<not> proxydialer_allowedIP L d ip then Some ip else proxydialer_Dial_blocked L d ips)"

definition proxydialer_Dial ::
  "stdlib \<Rightarrow> world \<Rightarrow> proxydialer_Dialer \<Rightarrow> string \<Rightarrow> string
     \<Rightarrow> (error + Conn) go \<times> event list" where
  "proxydialer_Dial L W d network addr =
     (if \<not> proxydialer_allowedNet d network then
        (Return (Inl (Errorf (invalid_net_text network addr))), [])
      else
        (case SplitHostPort L addr of
           Inl err \<Rightarrow> (Return (Inl err), [])
         | Inr (host, port) \<Rightarrow>
             (case parsePort W network port of
                (Inl err, evs) \<Rightarrow> (Return (Inl err), evs)
              | (Inr portnum, evs) \<Rightarrow>
                  if \<not> proxydialer_allowedPort d (to_int16 portnum) then
                    (Return (Inl (Errorf (blocked_port_text addr))), evs)
                  else
                    (case LookupIP W host of
                       Inl err \<Rightarrow> (Return (Inl err), evs @ [LookupIP_call host])
                     | Inr ips \<Rightarrow>
                         (case proxydialer_Dial_blocked L d ips of
                            Some ip \<Rightarrow>
                              (Return (Inl (Errorf (blocked_range_text L addr ip))),
                               evs @ [LookupIP_call host])
                          | None \<Rightarrow>
                              (let (r, evs') =
                                 proxydialer_dialSerial L W d network addr ips (Itoa L portnum)
                               in (r, evs @ [LookupIP_call host] @ evs')))))))"

definition proxydialer_DefaultDialer :: "stdlib \<Rightarrow> proxydialer_Dialer go" where
  "proxydialer_DefaultDialer L =
     (case cidrRanges L
        [''0.0.0.0/8'',
         ''10.0.0.0/8'',
         ''100.64.0.0/10'',
         ''127.0.0.0/8'',
         ''169.24.0.0/16'',
         ''172.16.0.0/12'',
         ''192.0.0.0/24'',
         ''192.0.2.0/24'',
         ''192.88.99.0/24'',
         ''192.168.0.0/16'',
         ''198.18.0.0/15'',
         ''198.51.100.0/24'',
         ''203.0.113.0/24'',
         ''224.0.0.0/4'',
         ''240.0.0.0/4'',
         ''255.255.255.255/32'',
         ''::/128'',
         ''::1/128'',
         ''100::/64'',
         ''64:ff9b::/96'',
         ''2001::/32'',
         ''2001:10::/28'',
         ''2001:20::/28'',
         ''2001:db8::/32'',
         ''2002::/16'',
         ''fc00::/7'',
         ''fe80::/10'',
         ''ff00::/8'']
      of
        Panic msg \<Rightarrow> Panic msg
      | Return ranges \<Rightarrow>
          Return \<lparr>pd_AllowedNets = [''tcp''],
                  pd_AllowedPorts = [80, 443, 8080, 8443],
                  pd_BlockedRanges = ranges,
                  pd_Timeout = 0,
                  pd_Deadline = 0,
                  pd_KeepAlive = 0,
                  pd_LocalAddr = None\<rparr>)"

text \<open>The fields of a later \<open>Dialer\<close> that the earlier struct has.\<close>

definition proxydialer_fields :: "Dialer \<Rightarrow> proxydialer_Dialer" where
  "proxydialer_fields d =
     \<lparr>pd_AllowedNets = AllowedNets d,
      pd_AllowedPorts = AllowedPorts d,
      pd_BlockedRanges = BlockedRanges d,
      pd_Timeout = Timeout d,
      pd_Deadline = Deadline d,
      pd_KeepAlive = KeepAlive d,
      pd_LocalAddr = LocalAddr d\<rparr>"

section \<open>The specification's formulas\<close>

text \<open>
  The default policy's ranges as the specification lists them, IPv4 and IPv6 apart.
\<close>

definition spec_blocked_ipv4 :: "string list" where
  "spec_blocked_ipv4 =
     [''0.0.0.0/8'', ''10.0.0.0/8'', ''100.64.0.0/10'', ''127.0.0.0/8'', ''169.254.0.0/16'',
      ''172.16.0.0/12'', ''192.0.0.0/24'', ''192.0.2.0/24'', ''192.88.99.0/24'',
      ''192.168.0.0/16'', ''198.18.0.0/15'', ''198.51.100.0/24'', ''203.0.113.0/24'',
      ''224.0.0.0/4'', ''240.0.0.0/4'', ''255.255.255.255/32'']"

definition spec_blocked_ipv6 :: "string list" where
  "spec_blocked_ipv6 =
     [''::/128'', ''::1/128'', ''100::/64'', ''64:ff9b::/96'', ''2001::/32'', ''2001:10::/28'',
      ''2001:20::/28'', ''2001:db8::/32'', ''2002::/16'', ''fc00::/7'', ''fe80::/10'',
      ''ff00::/8'']"

text \<open>
  The effective deadline in the specification's words: with a timeout the candidate is
  now + timeout, and if an absolute deadline is configured too, the earlier of the two;
  without a timeout it is the configured deadline (zero when there is none).
\<close>

definition spec_effective_deadline :: "Time \<Rightarrow> Duration \<Rightarrow> Time \<Rightarrow> Time" where
  "spec_effective_deadline now T D =
     (if 0 < T then (if D = 0 then now + T else min (now + T) D) else D)"

text \<open>
  The per-attempt timeout in the specification's words: the remaining time divided
  evenly by the number of candidates, floored at two seconds, and never more than a
  configured timeout \<open>T\<close>.
\<close>

definition spec_attempt_timeout :: "Duration \<Rightarrow> nat \<Rightarrow> Duration \<Rightarrow> Duration" where
  "spec_attempt_timeout remaining n T =
     (let share = max (remaining sdiv int n) (2 * Second)
      in if T = 0 then share else min T share)"

text \<open>
  The standard library's dialer as the specification configures it for \<open>n\<close>
  candidates: the effective deadline, and the per-attempt timeout when a deadline
  exists. The clock is read once for the deadline when a timeout is configured, and
  once more for the remaining time.
\<close>

definition spec_dialer :: "world \<Rightarrow> Dialer \<Rightarrow> nat \<Rightarrow> net_Dialer" where
  "spec_dialer W d n =
     (let deadline = spec_effective_deadline (Now W 0) (Timeout d) (Deadline d);
          now = Now W (if 0 < Timeout d then 1 else 0)
      in \<lparr>nd_Timeout =
             (if deadline = 0 then Timeout d
              else spec_attempt_timeout (Time_Sub deadline now) n (Timeout d)),
           nd_Deadline = deadline,
           nd_KeepAlive = KeepAlive d,
           nd_LocalAddr = LocalAddr d\<rparr>)"

section \<open>A concrete library, world and policy for evaluation\<close>

text \<open>
  A small stand-in for the standard library and the network, used only to evaluate the
  model on concrete inputs: addresses starting with 127 are loopback, those starting
  with 10 private, a range contains the addresses that share its first byte; the
  resolver knows six names, one of them with an empty answer, and the literal
  169.254.169.254, and knows neither the hexadecimal, the decimal nor the zero-padded
  spelling of 127.0.0.1; only 93.184.216.34:80 accepts connections, and an attempt to
  another address whose deadline has passed times out.
\<close>

definition fixture_stdlib :: stdlib where
  "fixture_stdlib =
     \<lparr>ParseCIDR = (\<lambda>s. Inr ([], \<lparr>net_IP = map of_char s, net_Mask = []\<rparr>)),
      Contains = (\<lambda>n ip. take 1 ip = take 1 (net_IP n)),
      IsPrivate = (\<lambda>ip. take 1 ip = [10]),
      IsLoopback = (\<lambda>ip. take 1 ip = [127]),
      IsLinkLocalUnicast = (\<lambda>ip. take 2 ip = [169, 254]),
      IsLinkLocalMulticast = (\<lambda>ip. False),
      IsMulticast = (\<lambda>ip. take 1 ip = [224]),
      IsInterfaceLocalMulticast = (\<lambda>ip. False),
      IsUnspecified = (\<lambda>ip. ip = [0, 0, 0, 0]),
      IP_String =
        (\<lambda>ip. if ip = [127, 0, 0, 1] then ''127.0.0.1''
              else if ip = [93, 184, 216, 34] then ''93.184.216.34''
              else if ip = [198, 51, 100, 1] then ''198.51.100.1''
              else if ip = [198, 51, 100, 2] then ''198.51.100.2''
              else if ip = [169, 254, 169, 254] then ''169.254.169.254''
              else ''?''),
      SplitHostPort =
        (\<lambda>s. if s = ''localhost:80'' then Inr (''localhost'', ''80'')
             else if s = ''127.0.0.1:80'' then Inr (''127.0.0.1'', ''80'')
             else if s = ''0x7f000001:80'' then Inr (''0x7f000001'', ''80'')
             else if s = ''mixed.test:80'' then Inr (''mixed.test'', ''80'')
             else if s = ''example.com:80'' then Inr (''example.com'', ''80'')
             else if s = ''example.com:25'' then Inr (''example.com'', ''25'')
             else if s = ''example.com:40000'' then Inr (''example.com'', ''40000'')
             else if s = ''example.com:smtp'' then Inr (''example.com'', ''smtp'')
             else if s = ''down.test:80'' then Inr (''down.test'', ''80'')
             else if s = ''nowhere.test:80'' then Inr (''nowhere.test'', ''80'')
             else if s = ''empty.test:80'' then Inr (''empty.test'', ''80'')
             else if s = ''2130706433:80'' then Inr (''2130706433'', ''80'')
             else if s = ''000127.0.00000.00001:80'' then Inr (''000127.0.00000.00001'', ''80'')
             else if s = ''169.254.169.254:80'' then Inr (''169.254.169.254'', ''80'')
             else Inl (AddrError ''missing port in address'' s)),
      JoinHostPort = (\<lambda>host port. host @ '':'' @ port),
      Itoa = (\<lambda>n. if n = 80 then ''80'' else if n = 40000 then ''40000'' else ''?'')\<rparr>"

definition fixture_world :: world where
  "fixture_world =
     \<lparr>LookupPort =
        (\<lambda>network service. if service = ''http'' then Inr 80
             else Inl (NetError ''unknown port'')),
      LookupIP =
        (\<lambda>host. if host = ''localhost'' then Inr [[127, 0, 0, 1]]
             else if host = ''127.0.0.1'' then Inr [[127, 0, 0, 1]]
             else if host = ''mixed.test'' then Inr [[93, 184, 216, 34], [127, 0, 0, 1]]
             else if host = ''example.com'' then Inr [[93, 184, 216, 34]]
             else if host = ''down.test'' then Inr [[198, 51, 100, 1], [198, 51, 100, 2]]
             else if host = ''empty.test'' then Inr []
             else if host = ''169.254.169.254'' then Inr [[169, 254, 169, 254]]
             else Inl (NetError ''no such host'')),
      net_Dial =
        (\<lambda>i dialer network address.
             if address = ''93.184.216.34:80'' then Inr 7
             else if nd_Deadline dialer \<noteq> 0 \<and> nd_Deadline dialer < 1000 * Second
               then Inl (NetError (''i/o timeout '' @ address))
             else Inl (NetError (''connection refused '' @ address))),
      Now = (\<lambda>k. 1000 * Second + int k)\<rparr>"

definition fixture_dialer :: Dialer where
  "fixture_dialer =
     \<lparr>AllowedNets = [''tcp''],
      AllowedPorts = [80, 443, - 25536],
      BlockedRanges = [\<lparr>net_IP = [192, 168, 0, 0], net_Mask = [255, 255, 0, 0]\<rparr>],
      BlockPrivate = True,
      BlockLinkLocal = True,
      BlockMulticast = True,
      BlockUnspecified = True,
      Timeout = 0,
      Deadline = 0,
      KeepAlive = 0,
      LocalAddr = None\<rparr>"

section \<open>The library's range test and deadline contract\<close>

unbundle bit_operations_syntax

text \<open>
  What \<open>net.ParseCIDR\<close> returns for the range texts of the two default policies: the
  network number and the mask, four bytes each for IPv4 and sixteen for IPv6. The
  first list follows the specification's texts, IPv4 then IPv6, entry by entry.
\<close>

definition reference_spec_nets :: "IPNet list" where
  "reference_spec_nets =
     [\<lparr>net_IP = [0, 0, 0, 0], net_Mask = [255, 0, 0, 0]\<rparr>,
      \<lparr>net_IP = [10, 0, 0, 0], net_Mask = [255, 0, 0, 0]\<rparr>,
      \<lparr>net_IP = [100, 64, 0, 0], net_Mask = [255, 192, 0, 0]\<rparr>,
      \<lparr>net_IP = [127, 0, 0, 0], net_Mask = [255, 0, 0, 0]\<rparr>,
      \<lparr>net_IP = [169, 254, 0, 0], net_Mask = [255, 255, 0, 0]\<rparr>,
      \<lparr>net_IP = [172, 16, 0, 0], net_Mask = [255, 240, 0, 0]\<rparr>,
      \<lparr>net_IP = [192, 0, 0, 0], net_Mask = [255, 255, 255, 0]\<rparr>,
      \<lparr>net_IP = [192, 0, 2, 0], net_Mask = [255, 255, 255, 0]\<rparr>,
      \<lparr>net_IP = [192, 88, 99, 0], net_Mask = [255, 255, 255, 0]\<rparr>,
      \<lparr>net_IP = [192, 168, 0, 0], net_Mask = [255, 255, 0, 0]\<rparr>,
      \<lparr>net_IP = [198, 18, 0, 0], net_Mask = [255, 254, 0, 0]\<rparr>,
      \<lparr>net_IP = [198, 51, 100, 0], net_Mask = [255, 255, 255, 0]\<rparr>,
      \<lparr>net_IP = [203, 0, 113, 0], net_Mask = [255, 255, 255, 0]\<rparr>,
      \<lparr>net_IP = [224, 0, 0, 0], net_Mask = [240, 0, 0, 0]\<rparr>,
      \<lparr>net_IP = [240, 0, 0, 0], net_Mask = [240, 0, 0, 0]\<rparr>,
      \<lparr>net_IP = [255, 255, 255, 255], net_Mask = [255, 255, 255, 255]\<rparr>,
      \<lparr>net_IP = [0, 0, 0, 0, 0, 0, 0, 0, 0, 0, 0, 0, 0, 0, 0, 0],
         net_Mask = [255, 255, 255, 255, 255, 255, 255, 255, 255, 255, 255, 255, 255, 255, 255, 255]\<rparr>,
      \<lparr>net_IP = [0, 0, 0, 0, 0, 0, 0, 0, 0, 0, 0, 0, 0, 0, 0, 1],
         net_Mask = [255, 255, 255, 255, 255, 255, 255, 255, 255, 255, 255, 255, 255, 255, 255, 255]\<rparr>,
      \<lparr>net_IP = [1, 0, 0, 0, 0, 0, 0, 0, 0, 0, 0, 0, 0, 0, 0, 0],
         net_Mask = [255, 255, 255, 255, 255, 255, 255, 255, 0, 0, 0, 0, 0, 0, 0, 0]\<rparr>,
      \<lparr>net_IP = [0, 100, 255, 155, 0, 0, 0, 0, 0, 0, 0, 0, 0, 0, 0, 0],
         net_Mask = [255, 255, 255, 255, 255, 255, 255, 255, 255, 255, 255, 255, 0, 0, 0, 0]\<rparr>,
      \<lparr>net_IP = [32, 1, 0, 0, 0, 0, 0, 0, 0, 0, 0, 0, 0, 0, 0, 0],
         net_Mask = [255, 255, 255, 255, 0, 0, 0, 0, 0, 0, 0, 0, 0, 0, 0, 0]\<rparr>,
      \<lparr>net_IP = [32, 1, 0, 16, 0, 0, 0, 0, 0, 0, 0, 0, 0, 0, 0, 0],
         net_Mask = [255, 255, 255, 240, 0, 0, 0, 0, 0, 0, 0, 0, 0, 0, 0, 0]\<rparr>,
      \<lparr>net_IP = [32, 1, 0, 32, 0, 0, 0, 0, 0, 0, 0, 0, 0, 0, 0, 0],
         net_Mask = [255, 255, 255, 240, 0, 0, 0, 0, 0, 0, 0, 0, 0, 0, 0, 0]\<rparr>,
      \<lparr>net_IP = [32, 1, 13, 184, 0, 0, 0, 0, 0, 0, 0, 0, 0, 0, 0, 0],
         net_Mask = [255, 255, 255, 255, 0, 0, 0, 0, 0, 0, 0, 0, 0, 0, 0, 0]\<rparr>,
      \<lparr>net_IP = [32, 2, 0, 0, 0, 0, 0, 0, 0, 0, 0, 0, 0, 0, 0, 0],
         net_Mask = [255, 255, 0, 0, 0, 0, 0, 0, 0, 0, 0, 0, 0, 0, 0, 0]\<rparr>,
      \<lparr>net_IP = [252, 0, 0, 0, 0, 0, 0, 0, 0, 0, 0, 0, 0, 0, 0, 0],
         net_Mask = [254, 0, 0, 0, 0, 0, 0, 0, 0, 0, 0, 0, 0, 0, 0, 0]\<rparr>,
      \<lparr>net_IP = [254, 128, 0, 0, 0, 0, 0, 0, 0, 0, 0, 0, 0, 0, 0, 0],
         net_Mask = [255, 192, 0, 0, 0, 0, 0, 0, 0, 0, 0, 0, 0, 0, 0, 0]\<rparr>,
      \<lparr>net_IP = [255, 0, 0, 0, 0, 0, 0, 0, 0, 0, 0, 0, 0, 0, 0, 0],
         net_Mask = [255, 0, 0, 0, 0, 0, 0, 0, 0, 0, 0, 0, 0, 0, 0, 0]\<rparr>]"

definition reference_cidr_table :: "(string \<times> IPNet) list" where
  "reference_cidr_table =
     zip (spec_blocked_ipv4 @ spec_blocked_ipv6) reference_spec_nets
       @ [(''169.24.0.0/16'', \<lparr>net_IP = [169, 24, 0, 0], net_Mask = [255, 255, 0, 0]\<rparr>)]"

definition reference_ParseCIDR :: "string \<Rightarrow> error + (IP \<times> IPNet)" where
  "reference_ParseCIDR s =
     (case map_of reference_cidr_table s of
        None \<Rightarrow> Inl (NetError (''invalid CIDR address: '' @ s))
      | Some n \<Rightarrow> Inr (net_IP n, n))"

text \<open>
  \<open>IPNet.Contains\<close> for an address given in the length of the network number: the
  address and the network number agree under the mask, byte by byte.
\<close>

definition reference_Contains :: "IPNet \<Rightarrow> IP \<Rightarrow> bool" where
  "reference_Contains n ip =
     (length ip = length (net_IP n)
      \<and> map2 (AND) (net_IP n) (net_Mask n) = map2 (AND) ip (net_Mask n))"

definition reference_stdlib :: stdlib where
  "reference_stdlib =
     fixture_stdlib\<lparr>ParseCIDR := reference_ParseCIDR, Contains := reference_Contains\<rparr>"




section \<open>Properties\<close>

lemma allowedPort_loop_set: "allowedPort_loop ps port = (port \<in> set ps)"
  by (induction ps) auto

lemma allowedNet_loop_set: "allowedNet_loop ns network = (network \<in> set ns)"
  by (induction ns) auto

lemma allowedIP_loop_iff:
  "allowedIP_loop L rs ip = (\<not> (\<exists>r\<in>set rs. Contains L r ip))"
  by (induction rs) auto

lemma to_int16_sint:
  assumes "0 \<le> p" "p \<le> 65535"
  shows "sint (to_int16 p) = (if 32767 < p then p - 65536 else p)"
proof (cases "32767 < p")
  case True
  have "(p + 32768) mod 65536 = p + 32768 - 65536"
    using True assms by (simp add: mod_pos_geq)
  then show ?thesis using True unfolding to_int16_def
    by (simp add: int_word_sint)
next
  case False
  have "(p + 32768) mod 65536 = p + 32768"
    using False assms by simp
  then show ?thesis using False unfolding to_int16_def
    by (simp add: int_word_sint)
qed

lemma to_int16_inj:
  assumes "0 \<le> p" "p \<le> 65535" "0 \<le> q" "q \<le> 65535" "to_int16 p = to_int16 q"
  shows "p = q"
proof -
  have "sint (to_int16 p) = sint (to_int16 q)" using assms(5) by simp
  then show ?thesis
    using assms(1-4) by (simp add: to_int16_sint split: if_splits)
qed

lemma allowedPort_sint:
  "allowedPort d port = (\<exists>q\<in>set (AllowedPorts d). sint q = sint port)"
  by (auto simp: allowedPort_def allowedPort_loop_set dest: signed_word_eqI)

lemma parsePort_range_bounds:
  "parsePort_range port p = Inr q \<Longrightarrow> q = p \<and> 0 \<le> p \<and> p \<le> 65535"
  by (auto simp: parsePort_range_def split: if_splits)

lemma parsePort_bounds:
  assumes "parsePort W network port = (Inr p, evs)"
  shows "0 \<le> p \<and> p \<le> 65535"
  using assms unfolding parsePort_def
  by (auto split: prod.splits if_splits sum.splits dest: parsePort_range_bounds)

lemma Dial_port_blocked:
  assumes "allowedNet d network" and "SplitHostPort L addr = Inr (host, port)"
    and "parsePort W network port = (Inr p, evs)" and "\<not> allowedPort d (to_int16 p)"
  shows "Dial L W d network addr = (Return (Inl (Errorf (blocked_port_text addr))), evs)"
  using assms by (simp add: Dial_def)

subsection \<open>The port check\<close>

text \<open>
  C10. For a parsed port \<open>p\<close> between 0 and 65535, the allow-list check of \<open>Dial\<close>
  compares the 16-bit truncation \<open>int16(p)\<close> with the entries of \<open>AllowedPorts\<close>:
  the port passes exactly when some entry, read as a signed 16-bit number, is \<open>p\<close>
  itself (up to 32767) or \<open>p - 65536\<close> (above); the truncation is injective on that
  interval, and a port that does not pass makes \<open>Dial\<close> return the blocked-port error.
\<close>

theorem allowedPort_int16_truncation:
  fixes p :: int
  assumes "0 \<le> p" and "p \<le> 65535"
  shows "(allowedPort d (to_int16 p) \<longleftrightarrow>
            (\<exists>q\<in>set (AllowedPorts d). sint q = (if 32767 < p then p - 65536 else p)))
       \<and> (\<forall>p'. 0 \<le> p' \<and> p' \<le> 65535 \<and> to_int16 p' = to_int16 p \<longrightarrow> p' = p)
       \<and> (allowedNet d network \<and> SplitHostPort L addr = Inr (host, port)
            \<and> parsePort W network port = (Inr p, evs) \<and> \<not> allowedPort d (to_int16 p)
          \<longrightarrow> Dial L W d network addr = (Return (Inl (Errorf (blocked_port_text addr))), evs))"
proof (intro conjI)
  show "allowedPort d (to_int16 p) \<longleftrightarrow>
          (\<exists>q\<in>set (AllowedPorts d). sint q = (if 32767 < p then p - 65536 else p))"
    using to_int16_sint [OF assms] by (simp only: allowedPort_sint [of d "to_int16 p"])
  show "\<forall>p'. 0 \<le> p' \<and> p' \<le> 65535 \<and> to_int16 p' = to_int16 p \<longrightarrow> p' = p"
    using assms by (blast intro: to_int16_inj)
  show "allowedNet d network \<and> SplitHostPort L addr = Inr (host, port)
          \<and> parsePort W network port = (Inr p, evs) \<and> \<not> allowedPort d (to_int16 p)
        \<longrightarrow> Dial L W d network addr = (Return (Inl (Errorf (blocked_port_text addr))), evs)"
    by (blast intro: Dial_port_blocked)
qed

theorem allowedPort_int16_truncation_witness:
  "allowedPort fixture_dialer (to_int16 40000)
   \<and> (\<exists>q\<in>set (AllowedPorts fixture_dialer). sint q = - 25536)
   \<and> \<not> allowedPort fixture_dialer (to_int16 25)
   \<and> Dial fixture_stdlib fixture_world fixture_dialer ''tcp'' ''example.com:25''
        = (Return (Inl (Errorf ''dialer.Dial example.com:25: blocked port'')), [])"
proof -
  have hi: "allowedPort fixture_dialer (to_int16 40000)" by code_simp
  have lo: "\<not> allowedPort fixture_dialer (to_int16 25)" by code_simp
  have hnet: "allowedNet fixture_dialer ''tcp''" by code_simp
  have hsplit: "SplitHostPort fixture_stdlib ''example.com:25'' = Inr (''example.com'', ''25'')"
    by (simp add: fixture_stdlib_def)
  have hparse: "parsePort fixture_world ''tcp'' ''25'' = (Inr 25, [])" by code_simp
  have a: "\<exists>q\<in>set (AllowedPorts fixture_dialer). sint q = - 25536"
    using allowedPort_int16_truncation [of 40000 fixture_dialer] hi by simp
  have b: "Dial fixture_stdlib fixture_world fixture_dialer ''tcp'' ''example.com:25''
        = (Return (Inl (Errorf (blocked_port_text ''example.com:25''))), [])"
    using allowedPort_int16_truncation [of 25 fixture_dialer "''tcp''" fixture_stdlib
        "''example.com:25''" "''example.com''" "''25''" fixture_world "[]"] lo hnet hsplit hparse
    by simp
  show ?thesis using hi lo a b by (simp add: blocked_port_text_def)
qed

subsection \<open>The address check\<close>

text \<open>
  C3. For every address and every policy, \<open>allowedIP\<close> answers false exactly when
  \<open>BlockPrivate\<close> is set and the address is private or loopback, or \<open>BlockLinkLocal\<close>
  is set and it is link-local unicast or link-local multicast, or \<open>BlockMulticast\<close> is
  set and it is multicast or interface-local multicast, or \<open>BlockUnspecified\<close> is set
  and it is the unspecified address, or some entry of \<open>BlockedRanges\<close> contains it;
  otherwise it answers true.
\<close>

theorem allowedIP_blocked_iff:
  "(\<not> allowedIP L d ip) \<longleftrightarrow>
     (BlockPrivate d \<and> (IsPrivate L ip \<or> IsLoopback L ip))
   \<or> (BlockLinkLocal d \<and> (IsLinkLocalUnicast L ip \<or> IsLinkLocalMulticast L ip))
   \<or> (BlockMulticast d \<and> (IsMulticast L ip \<or> IsInterfaceLocalMulticast L ip))
   \<or> (BlockUnspecified d \<and> IsUnspecified L ip)
   \<or> (\<exists>netrange\<in>set (BlockedRanges d). Contains L netrange ip)"
  unfolding allowedIP_def by (simp add: allowedIP_loop_iff) blast

subsection \<open>The serial connector\<close>

lemma dialSerial_dialer_spec:
  assumes "0 < n"
  shows "dialSerial_dialer W d n = Return (spec_dialer W d n)"
  using assms
  unfolding dialSerial_dialer_def spec_dialer_def spec_effective_deadline_def
    spec_attempt_timeout_def IsZero_def Before_def Time_Add_def Let_def
  by (auto simp: min_def max_def)

lemma dialSerial_loop_calls:
  "\<exists>k\<le>length ips.
     snd (dialSerial_loop L W dialer network port i firstErr ips)
       = map (attempt_call L dialer network port) (take k ips)"
proof (induction ips arbitrary: i firstErr)
  case Nil
  show ?case by simp
next
  case (Cons ip ips)
  show ?case
  proof (cases "net_Dial W i dialer network (JoinHostPort L (IP_String L ip) port)")
    case (Inr conn)
    then have "snd (dialSerial_loop L W dialer network port i firstErr (ip # ips))
        = map (attempt_call L dialer network port) (take (Suc 0) (ip # ips))"
      by (simp add: attempt_call_def)
    then show ?thesis by (metis Suc_leI length_Cons zero_less_Suc)
  next
    case (Inl err)
    obtain k where k: "k \<le> length ips"
      "snd (dialSerial_loop L W dialer network port (Suc i)
              (if firstErr = None then Some err else firstErr) ips)
         = map (attempt_call L dialer network port) (take k ips)"
      using Cons.IH by blast
    have "snd (dialSerial_loop L W dialer network port i firstErr (ip # ips))
        = map (attempt_call L dialer network port) (take (Suc k) (ip # ips))"
      using Inl k(2) by (simp add: attempt_call_def case_prod_beta)
    then show ?thesis using k(1) by (metis Suc_le_mono length_Cons)
  qed
qed

lemma dialSerial_loop_all_fail:
  assumes "\<forall>j<length ips. \<exists>e. attempt L W dialer network port (i + j) (ips ! j) = Inl e"
  shows "dialSerial_loop L W dialer network port i firstErr ips
     = (Inl (case firstErr of
               Some e \<Rightarrow> Some e
             | None \<Rightarrow> (case ips of
                          [] \<Rightarrow> None
                        | ip # rest \<Rightarrow>
                            (case attempt L W dialer network port i ip of
                               Inl e \<Rightarrow> Some e | Inr c \<Rightarrow> None))),
        map (attempt_call L dialer network port) ips)"
  using assms
proof (induction ips arbitrary: i firstErr)
  case Nil
  show ?case by (simp split: option.splits)
next
  case (Cons ip ips)
  from Cons.prems obtain e where e: "attempt L W dialer network port i ip = Inl e"
    by fastforce
  have rest: "\<forall>j<length ips. \<exists>e. attempt L W dialer network port (Suc i + j) (ips ! j) = Inl e"
  proof (intro allI impI)
    fix j assume "j < length ips"
    then have "Suc j < length (ip # ips)" by simp
    from Cons.prems [rule_format, OF this]
    show "\<exists>e. attempt L W dialer network port (Suc i + j) (ips ! j) = Inl e" by simp
  qed
  note IH = Cons.IH [OF rest]
  show ?case
    using e unfolding attempt_def
    by (simp add: IH attempt_call_def attempt_def split: option.splits)
qed

lemma dialSerial_loop_first_success:
  assumes "k < length ips"
    and "\<forall>j<k. \<exists>e. attempt L W dialer network port (i + j) (ips ! j) = Inl e"
    and "attempt L W dialer network port (i + k) (ips ! k) = Inr conn"
  shows "dialSerial_loop L W dialer network port i firstErr ips
     = (Inr conn, map (attempt_call L dialer network port) (take (Suc k) ips))"
  using assms
proof (induction ips arbitrary: i firstErr k)
  case Nil
  then show ?case by simp
next
  case (Cons ip ips)
  show ?case
  proof (cases k)
    case 0
    with Cons.prems(3) show ?thesis
      by (simp add: attempt_def attempt_call_def)
  next
    case (Suc k')
    from Cons.prems(2) Suc obtain e where e: "attempt L W dialer network port i ip = Inl e"
      by fastforce
    have lt: "k' < length ips" using Cons.prems(1) Suc by simp
    have fails: "\<forall>j<k'. \<exists>e. attempt L W dialer network port (Suc i + j) (ips ! j) = Inl e"
    proof (intro allI impI)
      fix j assume "j < k'"
      then have "Suc j < k" using Suc by simp
      from Cons.prems(2) [rule_format, OF this]
      show "\<exists>e. attempt L W dialer network port (Suc i + j) (ips ! j) = Inl e" by simp
    qed
    have ok: "attempt L W dialer network port (Suc i + k') (ips ! k') = Inr conn"
      using Cons.prems(3) Suc by simp
    note IH = Cons.IH [OF lt fails ok]
    show ?thesis
      using e Suc unfolding attempt_def
      by (simp add: IH attempt_call_def attempt_def)
  qed
qed



lemma dialSerial_nonempty:
  assumes "ips \<noteq> []"
  shows "dialSerial L W d network addr ips port =
     (case dialSerial_loop L W (spec_dialer W d (length ips)) network port 0 None ips of
        (Inr conn, evs) \<Rightarrow> (Return (Inr conn), evs)
      | (Inl (Some firstErr), evs) \<Rightarrow> (Return (Inl firstErr), evs)
      | (Inl None, evs) \<Rightarrow>
          (Return (Inl (Errorf (''dialer.Dial no IP addresses found: '' @ addr))), evs))"
  using assms by (simp add: dialSerial_def dialSerial_dialer_spec)

lemma snd_dialSerial_nonempty:
  assumes "ips \<noteq> []"
  shows "snd (dialSerial L W d network addr ips port)
     = snd (dialSerial_loop L W (spec_dialer W d (length ips)) network port 0 None ips)"
  by (simp add: dialSerial_nonempty [OF assms] split: prod.splits sum.splits option.splits)

lemma dialSerial_loop_first_call:
  "\<exists>evs. snd (dialSerial_loop L W dialer network port i firstErr (ip # ips))
     = attempt_call L dialer network port ip # evs"
  by (cases "net_Dial W i dialer network (JoinHostPort L (IP_String L ip) port)")
    (simp_all add: attempt_call_def case_prod_beta)

lemma dialSerial_first_success:
  assumes "ips \<noteq> []" and "k < length ips"
    and "\<forall>j<k. \<exists>e. attempt L W (spec_dialer W d (length ips)) network port j (ips ! j) = Inl e"
    and "attempt L W (spec_dialer W d (length ips)) network port k (ips ! k) = Inr conn"
  shows "dialSerial L W d network addr ips port
     = (Return (Inr conn),
        map (attempt_call L (spec_dialer W d (length ips)) network port) (take (Suc k) ips))"
proof -
  have "dialSerial_loop L W (spec_dialer W d (length ips)) network port 0 None ips
     = (Inr conn, map (attempt_call L (spec_dialer W d (length ips)) network port) (take (Suc k) ips))"
    using assms(2-4) by (intro dialSerial_loop_first_success) simp_all
  then show ?thesis by (simp add: dialSerial_nonempty [OF assms(1)])
qed

lemma dialSerial_all_fail:
  assumes "ips \<noteq> []"
    and "\<forall>j<length ips. \<exists>e. attempt L W (spec_dialer W d (length ips)) network port j (ips ! j) = Inl e"
    and "attempt L W (spec_dialer W d (length ips)) network port 0 (hd ips) = Inl e"
  shows "dialSerial L W d network addr ips port
     = (Return (Inl e), map (attempt_call L (spec_dialer W d (length ips)) network port) ips)"
proof -
  obtain ip rest where ips: "ips = ip # rest" using assms(1) by (cases ips) auto
  have "dialSerial_loop L W (spec_dialer W d (length ips)) network port 0 None ips
     = (Inl (Some e), map (attempt_call L (spec_dialer W d (length ips)) network port) ips)"
    using dialSerial_loop_all_fail [of ips L W "spec_dialer W d (length ips)" network port 0 None]
      assms(2,3) ips by simp
  then show ?thesis by (simp add: dialSerial_nonempty [OF assms(1)])
qed

text \<open>
  C6. For a non-empty candidate list the serial connector tries the addresses in list
  order: its attempts are those on a non-empty prefix of the list. When attempt \<open>k\<close> is
  the first to succeed, its connection is returned and no later candidate is tried;
  when every attempt fails, the error of the first candidate is returned.
\<close>

theorem dialSerial_order_first_error:
  assumes "ips \<noteq> []"
  shows "(\<exists>k. 0 < k \<and> k \<le> length ips
            \<and> snd (dialSerial L W d network addr ips port)
                = map (attempt_call L (spec_dialer W d (length ips)) network port) (take k ips))
       \<and> (\<forall>k conn. k < length ips
              \<and> (\<forall>j<k. \<exists>e. attempt L W (spec_dialer W d (length ips)) network port j (ips ! j) = Inl e)
              \<and> attempt L W (spec_dialer W d (length ips)) network port k (ips ! k) = Inr conn
            \<longrightarrow> dialSerial L W d network addr ips port
                  = (Return (Inr conn),
                     map (attempt_call L (spec_dialer W d (length ips)) network port)
                       (take (Suc k) ips)))
       \<and> (\<forall>e. (\<forall>j<length ips.
                  \<exists>e'. attempt L W (spec_dialer W d (length ips)) network port j (ips ! j) = Inl e')
              \<and> attempt L W (spec_dialer W d (length ips)) network port 0 (hd ips) = Inl e
            \<longrightarrow> dialSerial L W d network addr ips port
                  = (Return (Inl e),
                     map (attempt_call L (spec_dialer W d (length ips)) network port) ips))"
proof (intro conjI allI impI)
  obtain k where k: "k \<le> length ips"
    "snd (dialSerial_loop L W (spec_dialer W d (length ips)) network port 0 None ips)
       = map (attempt_call L (spec_dialer W d (length ips)) network port) (take k ips)"
    using dialSerial_loop_calls by blast
  obtain ip rest where ips: "ips = ip # rest" using assms by (cases ips) auto
  obtain evs where
    "snd (dialSerial_loop L W (spec_dialer W d (length ips)) network port 0 None ips)
       = attempt_call L (spec_dialer W d (length ips)) network port ip # evs"
    using dialSerial_loop_first_call [of L W _ network port 0 None ip rest] ips by auto
  with k(2) have "0 < k" by (cases k) auto
  with k show "\<exists>k. 0 < k \<and> k \<le> length ips
            \<and> snd (dialSerial L W d network addr ips port)
                = map (attempt_call L (spec_dialer W d (length ips)) network port) (take k ips)"
    using snd_dialSerial_nonempty [OF assms] by metis
next
  fix k conn
  assume "k < length ips
      \<and> (\<forall>j<k. \<exists>e. attempt L W (spec_dialer W d (length ips)) network port j (ips ! j) = Inl e)
      \<and> attempt L W (spec_dialer W d (length ips)) network port k (ips ! k) = Inr conn"
  then show "dialSerial L W d network addr ips port
      = (Return (Inr conn),
         map (attempt_call L (spec_dialer W d (length ips)) network port) (take (Suc k) ips))"
    using dialSerial_first_success [OF assms] by blast
next
  fix e
  assume "(\<forall>j<length ips.
            \<exists>e'. attempt L W (spec_dialer W d (length ips)) network port j (ips ! j) = Inl e')
      \<and> attempt L W (spec_dialer W d (length ips)) network port 0 (hd ips) = Inl e"
  then show "dialSerial L W d network addr ips port
      = (Return (Inl e), map (attempt_call L (spec_dialer W d (length ips)) network port) ips)"
    using dialSerial_all_fail [OF assms] by blast
qed

lemma fixture_no_budget:
  "spec_dialer fixture_world fixture_dialer n
     = \<lparr>nd_Timeout = 0, nd_Deadline = 0, nd_KeepAlive = 0, nd_LocalAddr = None\<rparr>"
  by (simp add: spec_dialer_def spec_effective_deadline_def fixture_dialer_def)

theorem dialSerial_order_first_error_witness:
  "dialSerial fixture_stdlib fixture_world fixture_dialer ''tcp'' ''down.test:80''
       [[198, 51, 100, 1], [198, 51, 100, 2]] ''80''
     = (Return (Inl (NetError ''connection refused 198.51.100.1:80'')),
        [Dial_call \<lparr>nd_Timeout = 0, nd_Deadline = 0, nd_KeepAlive = 0, nd_LocalAddr = None\<rparr>
           ''tcp'' ''198.51.100.1:80'',
         Dial_call \<lparr>nd_Timeout = 0, nd_Deadline = 0, nd_KeepAlive = 0, nd_LocalAddr = None\<rparr>
           ''tcp'' ''198.51.100.2:80''])
   \<and> dialSerial fixture_stdlib fixture_world fixture_dialer ''tcp'' ''example.com:80''
       [[198, 51, 100, 1], [93, 184, 216, 34], [198, 51, 100, 2]] ''80''
     = (Return (Inr 7),
        [Dial_call \<lparr>nd_Timeout = 0, nd_Deadline = 0, nd_KeepAlive = 0, nd_LocalAddr = None\<rparr>
           ''tcp'' ''198.51.100.1:80'',
         Dial_call \<lparr>nd_Timeout = 0, nd_Deadline = 0, nd_KeepAlive = 0, nd_LocalAddr = None\<rparr>
           ''tcp'' ''93.184.216.34:80''])"
proof -
  let ?A = "[[198, 51, 100, 1], [198, 51, 100, 2]] :: IP list"
  let ?B = "[[198, 51, 100, 1], [93, 184, 216, 34], [198, 51, 100, 2]] :: IP list"
  let ?dl = "\<lparr>nd_Timeout = 0, nd_Deadline = 0, nd_KeepAlive = 0, nd_LocalAddr = None\<rparr>"
  have neA: "?A \<noteq> []" and neB: "?B \<noteq> []" by simp_all
  have ltB: "Suc 0 < length ?B" by simp
  have a0: "attempt fixture_stdlib fixture_world ?dl ''tcp'' ''80'' 0 [198, 51, 100, 1]
      = Inl (NetError ''connection refused 198.51.100.1:80'')"
    by (simp add: attempt_def fixture_stdlib_def fixture_world_def)
  have a1: "attempt fixture_stdlib fixture_world ?dl ''tcp'' ''80'' (Suc 0) [198, 51, 100, 2]
      = Inl (NetError ''connection refused 198.51.100.2:80'')"
    by (simp add: attempt_def fixture_stdlib_def fixture_world_def)
  have b1: "attempt fixture_stdlib fixture_world ?dl ''tcp'' ''80'' (Suc 0) [93, 184, 216, 34]
      = Inr 7"
    by (simp add: attempt_def fixture_stdlib_def fixture_world_def)
  have failsA: "\<forall>j<length ?A. \<exists>e. attempt fixture_stdlib fixture_world
      (spec_dialer fixture_world fixture_dialer (length ?A)) ''tcp'' ''80'' j (?A ! j) = Inl e"
    using a0 a1 by (simp add: fixture_no_budget less_Suc_eq)
  have firstA: "attempt fixture_stdlib fixture_world
      (spec_dialer fixture_world fixture_dialer (length ?A)) ''tcp'' ''80'' 0 (hd ?A)
        = Inl (NetError ''connection refused 198.51.100.1:80'')"
    using a0 by (simp add: fixture_no_budget)
  have A: "dialSerial fixture_stdlib fixture_world fixture_dialer ''tcp'' ''down.test:80'' ?A ''80''
     = (Return (Inl (NetError ''connection refused 198.51.100.1:80'')),
        map (attempt_call fixture_stdlib (spec_dialer fixture_world fixture_dialer (length ?A))
               ''tcp'' ''80'') ?A)"
    by (rule dialSerial_order_first_error [OF neA, THEN conjunct2, THEN conjunct2, rule_format,
          OF conjI [OF failsA firstA]])
  have failsB: "\<forall>j<Suc 0. \<exists>e. attempt fixture_stdlib fixture_world
      (spec_dialer fixture_world fixture_dialer (length ?B)) ''tcp'' ''80'' j (?B ! j) = Inl e"
    using a0 by (simp add: fixture_no_budget)
  have okB: "attempt fixture_stdlib fixture_world
      (spec_dialer fixture_world fixture_dialer (length ?B)) ''tcp'' ''80'' (Suc 0) (?B ! Suc 0)
        = Inr 7"
    using b1 by (simp add: fixture_no_budget)
  have B: "dialSerial fixture_stdlib fixture_world fixture_dialer ''tcp'' ''example.com:80'' ?B ''80''
     = (Return (Inr 7),
        map (attempt_call fixture_stdlib (spec_dialer fixture_world fixture_dialer (length ?B))
               ''tcp'' ''80'') (take (Suc (Suc 0)) ?B))"
    by (rule dialSerial_order_first_error [OF neB, THEN conjunct2, THEN conjunct1, rule_format,
          OF conjI [OF ltB conjI [OF failsB okB]]])
  show ?thesis
    unfolding A B
    by (simp add: fixture_no_budget attempt_call_def fixture_stdlib_def)
qed

lemma spec_attempt_timeout_small:
  assumes "0 < T" and "T < 2 * Second"
  shows "spec_attempt_timeout remaining n T = T"
  using assms by (simp add: spec_attempt_timeout_def Let_def min_def max_def)

lemma spec_dialer_small_timeout:
  assumes "0 < Timeout d" and "Timeout d < 2 * Second"
  shows "nd_Timeout (spec_dialer W d n) = Timeout d"
  using assms by (simp add: spec_dialer_def Let_def spec_attempt_timeout_small)

lemma dialSerial_calls_prefix:
  assumes "ips \<noteq> []"
  shows "\<exists>k. 0 < k \<and> k \<le> length ips
            \<and> snd (dialSerial L W d network addr ips port)
                = map (attempt_call L (spec_dialer W d (length ips)) network port) (take k ips)"
proof -
  obtain k where k: "k \<le> length ips"
    "snd (dialSerial_loop L W (spec_dialer W d (length ips)) network port 0 None ips)
       = map (attempt_call L (spec_dialer W d (length ips)) network port) (take k ips)"
    using dialSerial_loop_calls by blast
  obtain ip rest where ips: "ips = ip # rest" using assms by (cases ips) auto
  obtain evs where
    "snd (dialSerial_loop L W (spec_dialer W d (length ips)) network port 0 None ips)
       = attempt_call L (spec_dialer W d (length ips)) network port ip # evs"
    using dialSerial_loop_first_call [of L W _ network port 0 None ip rest] ips by auto
  with k(2) have "0 < k" by (cases k) auto
  with k show ?thesis
    using snd_dialSerial_nonempty [OF assms] by metis
qed

text \<open>
  C5. For a non-empty candidate list the serial connector hands the standard library's
  dialer the configuration \<open>spec_dialer\<close>: with a timeout \<open>T\<close> the deadline is the
  earlier of now + \<open>T\<close> and a configured absolute deadline; when a deadline exists the
  per-attempt timeout is the remaining time divided by the number of candidates, at
  least two seconds, and at most \<open>T\<close>, so a \<open>T\<close> below two seconds stays \<open>T\<close>. Every
  attempt of the call uses this configuration.
\<close>

theorem dialSerial_time_budget:
  assumes "ips \<noteq> []"
  shows "dialSerial_dialer W d (length ips) = Return (spec_dialer W d (length ips))
       \<and> nd_Deadline (spec_dialer W d (length ips))
           = spec_effective_deadline (Now W 0) (Timeout d) (Deadline d)
       \<and> (nd_Deadline (spec_dialer W d (length ips)) \<noteq> 0
            \<longrightarrow> nd_Timeout (spec_dialer W d (length ips))
                 = spec_attempt_timeout
                     (Time_Sub (nd_Deadline (spec_dialer W d (length ips)))
                        (Now W (if 0 < Timeout d then 1 else 0)))
                     (length ips) (Timeout d))
       \<and> (\<exists>k. 0 < k \<and> k \<le> length ips
            \<and> snd (dialSerial L W d network addr ips port)
                = map (attempt_call L (spec_dialer W d (length ips)) network port) (take k ips))
       \<and> (0 < Timeout d \<and> Timeout d < 2 * Second
            \<longrightarrow> nd_Timeout (spec_dialer W d (length ips)) = Timeout d)"
proof (intro conjI impI)
  assume "nd_Deadline (spec_dialer W d (length ips)) \<noteq> 0"
  then show "nd_Timeout (spec_dialer W d (length ips))
                 = spec_attempt_timeout
                     (Time_Sub (nd_Deadline (spec_dialer W d (length ips)))
                        (Now W (if 0 < Timeout d then 1 else 0)))
                     (length ips) (Timeout d)"
    by (simp add: spec_dialer_def Let_def)
next
  show "dialSerial_dialer W d (length ips) = Return (spec_dialer W d (length ips))"
    using assms by (simp add: dialSerial_dialer_spec)
  show "nd_Deadline (spec_dialer W d (length ips))
           = spec_effective_deadline (Now W 0) (Timeout d) (Deadline d)"
    by (simp add: spec_dialer_def Let_def)
  show "\<exists>k. 0 < k \<and> k \<le> length ips
            \<and> snd (dialSerial L W d network addr ips port)
                = map (attempt_call L (spec_dialer W d (length ips)) network port) (take k ips)"
    by (rule dialSerial_calls_prefix [OF assms])
next
  assume "0 < Timeout d \<and> Timeout d < 2 * Second"
  then show "nd_Timeout (spec_dialer W d (length ips)) = Timeout d"
    by (simp add: spec_dialer_small_timeout)
qed

lemma fixture_budget_5s:
  "spec_dialer fixture_world (fixture_dialer\<lparr>Timeout := 5 * Second\<rparr>) (Suc (Suc 0))
     = \<lparr>nd_Timeout = 2499999999, nd_Deadline = 1005000000000, nd_KeepAlive = 0,
        nd_LocalAddr = None\<rparr>"
  by (simp add: spec_dialer_def spec_effective_deadline_def spec_attempt_timeout_def
      fixture_dialer_def fixture_world_def Second_def Time_Sub_def minDuration_def
      maxDuration_def Let_def)

lemma fixture_budget_1s:
  "spec_dialer fixture_world (fixture_dialer\<lparr>Timeout := Second\<rparr>) (Suc (Suc 0))
     = \<lparr>nd_Timeout = 1000000000, nd_Deadline = 1001000000000, nd_KeepAlive = 0,
        nd_LocalAddr = None\<rparr>"
  by (simp add: spec_dialer_def spec_effective_deadline_def spec_attempt_timeout_def
      fixture_dialer_def fixture_world_def Second_def Time_Sub_def minDuration_def
      maxDuration_def Let_def)

theorem dialSerial_time_budget_witness:
  "dialSerial_dialer fixture_world (fixture_dialer\<lparr>Timeout := 5 * Second\<rparr>)
       (length [[198, 51, 100, 1], [198, 51, 100, 2 :: byte]])
     = Return \<lparr>nd_Timeout = 2499999999, nd_Deadline = 1005000000000, nd_KeepAlive = 0,
               nd_LocalAddr = None\<rparr>
   \<and> dialSerial_dialer fixture_world (fixture_dialer\<lparr>Timeout := Second\<rparr>)
       (length [[198, 51, 100, 1], [198, 51, 100, 2 :: byte]])
     = Return \<lparr>nd_Timeout = 1000000000, nd_Deadline = 1001000000000, nd_KeepAlive = 0,
               nd_LocalAddr = None\<rparr>"
proof -
  let ?A = "[[198, 51, 100, 1], [198, 51, 100, 2]] :: IP list"
  have ne: "?A \<noteq> []" by simp
  have a: "dialSerial_dialer fixture_world (fixture_dialer\<lparr>Timeout := 5 * Second\<rparr>) (length ?A)
      = Return (spec_dialer fixture_world (fixture_dialer\<lparr>Timeout := 5 * Second\<rparr>) (length ?A))"
    by (rule dialSerial_time_budget [OF ne, THEN conjunct1])
  have b: "dialSerial_dialer fixture_world (fixture_dialer\<lparr>Timeout := Second\<rparr>) (length ?A)
      = Return (spec_dialer fixture_world (fixture_dialer\<lparr>Timeout := Second\<rparr>) (length ?A))"
    by (rule dialSerial_time_budget [OF ne, THEN conjunct1])
  show ?thesis unfolding a b by (simp add: fixture_budget_5s fixture_budget_1s)
qed

lemma dialSerial_empty_no_budget:
  assumes "spec_effective_deadline (Now W 0) (Timeout d) (Deadline d) = 0"
  shows "dialSerial L W d network addr [] port
     = (Return (Inl (Errorf (''dialer.Dial no IP addresses found: '' @ addr))), [])"
  using assms
  unfolding dialSerial_def dialSerial_dialer_def spec_effective_deadline_def Let_def
    IsZero_def Before_def Time_Add_def
  by (auto simp: min_def split: if_splits)

lemma dialSerial_empty_budget_panics:
  assumes "spec_effective_deadline (Now W 0) (Timeout d) (Deadline d) \<noteq> 0"
  shows "dialSerial L W d network addr [] port
     = (Panic ''runtime error: integer divide by zero'', [])"
  using assms
  unfolding dialSerial_def dialSerial_dialer_def spec_effective_deadline_def Let_def
    IsZero_def Before_def Time_Add_def
  by (auto simp: min_def split: if_splits)






subsection \<open>Dial\<close>

lemma Dial_blocked_None_iff:
  "Dial_blocked L d ips = None \<longleftrightarrow> (\<forall>ip\<in>set ips. allowedIP L d ip)"
  by (induction ips) auto

lemma Dial_blocked_Some:
  assumes "Dial_blocked L d ips = Some ip"
  shows "\<exists>pre post. ips = pre @ ip # post \<and> (\<forall>a\<in>set pre. allowedIP L d a)
           \<and> \<not> allowedIP L d ip"
  using assms
proof (induction ips)
  case Nil
  then show ?case by simp
next
  case (Cons a ips)
  show ?case
  proof (cases "allowedIP L d a")
    case False
    with Cons.prems have "a = ip" by simp
    with False have "a # ips = [] @ ip # ips \<and> (\<forall>x\<in>set []. allowedIP L d x)
        \<and> \<not> allowedIP L d ip" by simp
    then show ?thesis by blast
  next
    case True
    with Cons.prems have "Dial_blocked L d ips = Some ip" by simp
    from Cons.IH [OF this] obtain pre post where
      pp: "ips = pre @ ip # post" "\<forall>x\<in>set pre. allowedIP L d x" "\<not> allowedIP L d ip"
      by blast
    with True have "a # ips = (a # pre) @ ip # post \<and> (\<forall>x\<in>set (a # pre). allowedIP L d x)
        \<and> \<not> allowedIP L d ip" by simp
    then show ?thesis by blast
  qed
qed

lemma Dial_blocked_exists:
  assumes "ip \<in> set ips" and "\<not> allowedIP L d ip"
  shows "\<exists>ip'. Dial_blocked L d ips = Some ip'"
  using assms Dial_blocked_None_iff [of L d ips] by (cases "Dial_blocked L d ips") auto

lemma parsePort_events:
  "snd (parsePort W network port) = [] \<or> snd (parsePort W network port) = [LookupPort_call network port]"
  unfolding parsePort_def by (auto split: prod.splits sum.splits)

lemma parsePort_no_lookup_no_dial:
  "lookup_calls (snd (parsePort W network port)) = []
   \<and> dial_calls (snd (parsePort W network port)) = []"
  using parsePort_events [of W network port]
  by (auto simp: lookup_calls_def dial_calls_def)

lemma parsePort_calls:
  assumes "parsePort W network port = (r, evs)"
  shows "lookup_calls evs = []" and "dial_calls evs = []" and "sorted (map stage evs)"
    and "\<forall>ev\<in>set evs. stage ev = 0"
  using parsePort_events [of W network port] assms
  by (auto simp: lookup_calls_def dial_calls_def)

lemma Dial_invalid_net:
  "\<not> allowedNet d network \<Longrightarrow>
   Dial L W d network addr = (Return (Inl (Errorf (invalid_net_text network addr))), [])"
  by (simp add: Dial_def)

lemma Dial_split_error:
  "allowedNet d network \<Longrightarrow> SplitHostPort L addr = Inl e \<Longrightarrow>
   Dial L W d network addr = (Return (Inl e), [])"
  by (simp add: Dial_def)

lemma Dial_port_error:
  "allowedNet d network \<Longrightarrow> SplitHostPort L addr = Inr (host, port) \<Longrightarrow>
   parsePort W network port = (Inl e, evs) \<Longrightarrow>
   Dial L W d network addr = (Return (Inl e), evs)"
  by (simp add: Dial_def)

lemma Dial_lookup_error:
  "allowedNet d network \<Longrightarrow> SplitHostPort L addr = Inr (host, port) \<Longrightarrow>
   parsePort W network port = (Inr p, evs) \<Longrightarrow> allowedPort d (to_int16 p) \<Longrightarrow>
   LookupIP W host = Inl e \<Longrightarrow>
   Dial L W d network addr = (Return (Inl e), evs @ [LookupIP_call host])"
  by (simp add: Dial_def)

lemma Dial_range_blocked:
  "allowedNet d network \<Longrightarrow> SplitHostPort L addr = Inr (host, port) \<Longrightarrow>
   parsePort W network port = (Inr p, evs) \<Longrightarrow> allowedPort d (to_int16 p) \<Longrightarrow>
   LookupIP W host = Inr ips \<Longrightarrow> Dial_blocked L d ips = Some ip \<Longrightarrow>
   Dial L W d network addr
     = (Return (Inl (Errorf (blocked_range_text L addr ip))), evs @ [LookupIP_call host])"
  by (simp add: Dial_def)

lemma Dial_connects:
  "allowedNet d network \<Longrightarrow> SplitHostPort L addr = Inr (host, port) \<Longrightarrow>
   parsePort W network port = (Inr p, evs) \<Longrightarrow> allowedPort d (to_int16 p) \<Longrightarrow>
   LookupIP W host = Inr ips \<Longrightarrow> Dial_blocked L d ips = None \<Longrightarrow>
   Dial L W d network addr
     = (fst (dialSerial L W d network addr ips (Itoa L p)),
        evs @ [LookupIP_call host] @ snd (dialSerial L W d network addr ips (Itoa L p)))"
  by (simp add: Dial_def case_prod_beta)

lemma dialSerial_loop_only_dials:
  "\<forall>ev\<in>set (snd (dialSerial_loop L W dialer network port i firstErr ips)). stage ev = 2"
proof -
  obtain k where "snd (dialSerial_loop L W dialer network port i firstErr ips)
       = map (attempt_call L dialer network port) (take k ips)"
    using dialSerial_loop_calls by blast
  then show ?thesis by (auto simp: attempt_call_def)
qed

lemma snd_dialSerial:
  "snd (dialSerial L W d network addr ips port)
     = (case dialSerial_dialer W d (length ips) of
          Panic msg \<Rightarrow> []
        | Return dialer \<Rightarrow> snd (dialSerial_loop L W dialer network port 0 None ips))"
  by (simp add: dialSerial_def split: go.splits prod.splits sum.splits option.splits)

lemma dialSerial_only_dials:
  "\<forall>ev\<in>set (snd (dialSerial L W d network addr ips port)). stage ev = 2"
proof (cases "dialSerial_dialer W d (length ips)")
  case (Panic msg)
  then show ?thesis by (simp add: snd_dialSerial)
next
  case (Return dialer)
  then show ?thesis
    using dialSerial_loop_only_dials [of L W dialer network port 0 None ips]
    by (simp add: snd_dialSerial)
qed

lemma sorted_const: "\<forall>x\<in>set xs. x = (c::nat) \<Longrightarrow> sorted xs"
  by (induction xs) auto

lemma sorted_stages:
  assumes "\<forall>ev\<in>set evs. stage ev = 0" and "\<forall>ev\<in>set evs'. stage ev = 2"
  shows "sorted (map stage evs @ Suc 0 # map stage evs')"
    and "sorted (map stage evs @ [Suc 0])"
    and "sorted (map stage evs)"
proof -
  have a: "sorted (map stage evs)" using assms(1) by (intro sorted_const [of _ 0]) auto
  have b: "sorted (map stage evs')" using assms(2) by (intro sorted_const [of _ 2]) auto
  show "sorted (map stage evs)" by (rule a)
  show "sorted (map stage evs @ [Suc 0])" using a assms(1) by (auto simp: sorted_append)
  show "sorted (map stage evs @ Suc 0 # map stage evs')"
    using a b assms by (auto simp: sorted_append)
qed

lemma Dial_sorted: "sorted (map stage (snd (Dial L W d network addr)))"
proof -
  have pp: "\<forall>ev\<in>set (snd (parsePort W network port)). stage ev = 0" for port
    using parsePort_events [of W network port] by auto
  note ss = sorted_stages [OF pp dialSerial_only_dials]
  show ?thesis
    unfolding Dial_def
    by (auto simp: case_prod_beta ss split: sum.splits prod.splits option.splits)
qed

lemma dial_calls_append [simp]: "dial_calls (xs @ ys) = dial_calls xs @ dial_calls ys"
  by (simp add: dial_calls_def)

lemma lookup_calls_append [simp]: "lookup_calls (xs @ ys) = lookup_calls xs @ lookup_calls ys"
  by (simp add: lookup_calls_def)

lemma dial_calls_LookupIP [simp]: "dial_calls [LookupIP_call host] = []"
  by (simp add: dial_calls_def)

lemma Dial_dial_calls_validated:
  assumes "dial_calls (snd (Dial L W d network addr)) \<noteq> []"
  shows "allowedNet d network
       \<and> (\<exists>host port p evs ips. SplitHostPort L addr = Inr (host, port)
            \<and> parsePort W network port = (Inr p, evs) \<and> allowedPort d (to_int16 p)
            \<and> LookupIP W host = Inr ips \<and> (\<forall>ip\<in>set ips. allowedIP L d ip))"
proof -
  have net: "allowedNet d network"
  proof (rule ccontr)
    assume "\<not> allowedNet d network"
    then have "snd (Dial L W d network addr) = []" by (simp add: Dial_invalid_net)
    with assms show False by (simp add: dial_calls_def)
  qed
  obtain host port where hp: "SplitHostPort L addr = Inr (host, port)"
    using assms Dial_split_error [OF net, of L addr _ W]
    by (cases "SplitHostPort L addr") (auto simp: dial_calls_def)
  obtain r evs where pp: "parsePort W network port = (r, evs)"
    by (cases "parsePort W network port") auto
  have nodial: "dial_calls evs = []" using parsePort_calls(2) [OF pp] .
  obtain p where p: "r = Inr p"
    using assms Dial_port_error [OF net hp, of W _ evs] pp nodial by (cases r) auto
  have pp': "parsePort W network port = (Inr p, evs)" using pp p by simp
  have port: "allowedPort d (to_int16 p)"
  proof (rule ccontr)
    assume "\<not> allowedPort d (to_int16 p)"
    then have "snd (Dial L W d network addr) = evs"
      by (simp add: Dial_port_blocked [OF net hp pp'])
    with assms nodial show False by simp
  qed
  obtain ips where ips: "LookupIP W host = Inr ips"
    using assms Dial_lookup_error [OF net hp _ port, of W evs] pp p nodial
    by (cases "LookupIP W host") auto
  have "Dial_blocked L d ips = None"
    using assms Dial_range_blocked [OF net hp _ port ips, of evs] pp p nodial
    by (cases "Dial_blocked L d ips") auto
  then have "\<forall>ip\<in>set ips. allowedIP L d ip" by (simp add: Dial_blocked_None_iff)
  with net hp pp p port ips show ?thesis by blast
qed

lemma Dial_lookup_calls_validated:
  assumes "lookup_calls (snd (Dial L W d network addr)) \<noteq> []"
  shows "allowedNet d network
       \<and> (\<exists>host port p evs. SplitHostPort L addr = Inr (host, port)
            \<and> parsePort W network port = (Inr p, evs) \<and> allowedPort d (to_int16 p))"
proof -
  have net: "allowedNet d network"
  proof (rule ccontr)
    assume "\<not> allowedNet d network"
    then have "snd (Dial L W d network addr) = []" by (simp add: Dial_invalid_net)
    with assms show False by (simp add: lookup_calls_def)
  qed
  obtain host port where hp: "SplitHostPort L addr = Inr (host, port)"
    using assms Dial_split_error [OF net, of L addr _ W]
    by (cases "SplitHostPort L addr") (auto simp: lookup_calls_def)
  obtain r evs where pp: "parsePort W network port = (r, evs)"
    by (cases "parsePort W network port") auto
  have nolookup: "lookup_calls evs = []" using parsePort_calls(1) [OF pp] .
  obtain p where p: "r = Inr p"
    using assms Dial_port_error [OF net hp, of W _ evs] pp nolookup by (cases r) auto
  have pp': "parsePort W network port = (Inr p, evs)" using pp p by simp
  have port: "allowedPort d (to_int16 p)"
  proof (rule ccontr)
    assume "\<not> allowedPort d (to_int16 p)"
    then have "snd (Dial L W d network addr) = evs"
      by (simp add: Dial_port_blocked [OF net hp pp'])
    with assms nolookup show False by simp
  qed
  with net hp pp p show ?thesis by blast
qed

text \<open>
  C2. \<open>Dial\<close> checks the transport, splits host and port, parses the port, checks
  it against the allow-list, resolves the host, checks every resolved address and only
  then connects; the first failing step ends the call with that step's error. A
  transport outside the allow-set is rejected with an empty trace; port parsing makes
  no resolver call and no connection attempt, so a disallowed port is rejected before
  any DNS lookup; the calls of a trace are ordered port lookup, resolution, connection;
  a resolver call implies that the transport and port checks passed, and a connection
  attempt implies that every validation step passed.
\<close>

theorem Dial_check_order:
  "(\<not> allowedNet d network
      \<longrightarrow> Dial L W d network addr
            = (Return (Inl (Errorf (invalid_net_text network addr))), []))
   \<and> (allowedNet d network \<and> SplitHostPort L addr = Inl e
      \<longrightarrow> Dial L W d network addr = (Return (Inl e), []))
   \<and> (allowedNet d network \<and> SplitHostPort L addr = Inr (host, port)
        \<and> parsePort W network port = (Inl e, evs)
      \<longrightarrow> Dial L W d network addr = (Return (Inl e), evs))
   \<and> (allowedNet d network \<and> SplitHostPort L addr = Inr (host, port)
        \<and> parsePort W network port = (Inr p, evs) \<and> \<not> allowedPort d (to_int16 p)
      \<longrightarrow> Dial L W d network addr = (Return (Inl (Errorf (blocked_port_text addr))), evs))
   \<and> (allowedNet d network \<and> SplitHostPort L addr = Inr (host, port)
        \<and> parsePort W network port = (Inr p, evs) \<and> allowedPort d (to_int16 p)
        \<and> LookupIP W host = Inl e
      \<longrightarrow> Dial L W d network addr = (Return (Inl e), evs @ [LookupIP_call host]))
   \<and> (allowedNet d network \<and> SplitHostPort L addr = Inr (host, port)
        \<and> parsePort W network port = (Inr p, evs) \<and> allowedPort d (to_int16 p)
        \<and> LookupIP W host = Inr ips \<and> Dial_blocked L d ips = Some ip
      \<longrightarrow> Dial L W d network addr
            = (Return (Inl (Errorf (blocked_range_text L addr ip))),
               evs @ [LookupIP_call host]))
   \<and> (allowedNet d network \<and> SplitHostPort L addr = Inr (host, port)
        \<and> parsePort W network port = (Inr p, evs) \<and> allowedPort d (to_int16 p)
        \<and> LookupIP W host = Inr ips \<and> Dial_blocked L d ips = None
      \<longrightarrow> Dial L W d network addr
            = (fst (dialSerial L W d network addr ips (Itoa L p)),
               evs @ [LookupIP_call host]
                 @ snd (dialSerial L W d network addr ips (Itoa L p))))
   \<and> lookup_calls (snd (parsePort W network port)) = []
   \<and> dial_calls (snd (parsePort W network port)) = []
   \<and> sorted (map stage (snd (Dial L W d network addr)))
   \<and> (lookup_calls (snd (Dial L W d network addr)) \<noteq> []
      \<longrightarrow> allowedNet d network
          \<and> (\<exists>host port p evs. SplitHostPort L addr = Inr (host, port)
               \<and> parsePort W network port = (Inr p, evs) \<and> allowedPort d (to_int16 p)))
   \<and> (dial_calls (snd (Dial L W d network addr)) \<noteq> []
      \<longrightarrow> allowedNet d network
          \<and> (\<exists>host port p evs ips. SplitHostPort L addr = Inr (host, port)
               \<and> parsePort W network port = (Inr p, evs) \<and> allowedPort d (to_int16 p)
               \<and> LookupIP W host = Inr ips \<and> (\<forall>ip\<in>set ips. allowedIP L d ip)))"
proof (intro conjI)
  show "\<not> allowedNet d network
      \<longrightarrow> Dial L W d network addr
            = (Return (Inl (Errorf (invalid_net_text network addr))), [])"
    by (simp add: Dial_invalid_net)
  show "allowedNet d network \<and> SplitHostPort L addr = Inl e
      \<longrightarrow> Dial L W d network addr = (Return (Inl e), [])"
    by (simp add: Dial_split_error)
  show "allowedNet d network \<and> SplitHostPort L addr = Inr (host, port)
        \<and> parsePort W network port = (Inl e, evs)
      \<longrightarrow> Dial L W d network addr = (Return (Inl e), evs)"
    by (simp add: Dial_port_error)
  show "allowedNet d network \<and> SplitHostPort L addr = Inr (host, port)
        \<and> parsePort W network port = (Inr p, evs) \<and> \<not> allowedPort d (to_int16 p)
      \<longrightarrow> Dial L W d network addr = (Return (Inl (Errorf (blocked_port_text addr))), evs)"
    by (simp add: Dial_port_blocked)
  show "allowedNet d network \<and> SplitHostPort L addr = Inr (host, port)
        \<and> parsePort W network port = (Inr p, evs) \<and> allowedPort d (to_int16 p)
        \<and> LookupIP W host = Inl e
      \<longrightarrow> Dial L W d network addr = (Return (Inl e), evs @ [LookupIP_call host])"
    by (simp add: Dial_lookup_error)
  show "allowedNet d network \<and> SplitHostPort L addr = Inr (host, port)
        \<and> parsePort W network port = (Inr p, evs) \<and> allowedPort d (to_int16 p)
        \<and> LookupIP W host = Inr ips \<and> Dial_blocked L d ips = Some ip
      \<longrightarrow> Dial L W d network addr
            = (Return (Inl (Errorf (blocked_range_text L addr ip))),
               evs @ [LookupIP_call host])"
    by (simp add: Dial_range_blocked)
  show "allowedNet d network \<and> SplitHostPort L addr = Inr (host, port)
        \<and> parsePort W network port = (Inr p, evs) \<and> allowedPort d (to_int16 p)
        \<and> LookupIP W host = Inr ips \<and> Dial_blocked L d ips = None
      \<longrightarrow> Dial L W d network addr
            = (fst (dialSerial L W d network addr ips (Itoa L p)),
               evs @ [LookupIP_call host]
                 @ snd (dialSerial L W d network addr ips (Itoa L p)))"
    by (simp add: Dial_connects)
  show "lookup_calls (snd (parsePort W network port)) = []"
    by (simp add: parsePort_no_lookup_no_dial)
  show "dial_calls (snd (parsePort W network port)) = []"
    by (simp add: parsePort_no_lookup_no_dial)
  show "sorted (map stage (snd (Dial L W d network addr)))"
    by (rule Dial_sorted)
  show "lookup_calls (snd (Dial L W d network addr)) \<noteq> []
      \<longrightarrow> allowedNet d network
          \<and> (\<exists>host port p evs. SplitHostPort L addr = Inr (host, port)
               \<and> parsePort W network port = (Inr p, evs) \<and> allowedPort d (to_int16 p))"
    using Dial_lookup_calls_validated by blast
  show "dial_calls (snd (Dial L W d network addr)) \<noteq> []
      \<longrightarrow> allowedNet d network
          \<and> (\<exists>host port p evs ips. SplitHostPort L addr = Inr (host, port)
               \<and> parsePort W network port = (Inr p, evs) \<and> allowedPort d (to_int16 p)
               \<and> LookupIP W host = Inr ips \<and> (\<forall>ip\<in>set ips. allowedIP L d ip))"
    using Dial_dial_calls_validated by blast
qed

lemma fixture_tcp: "allowedNet fixture_dialer ''tcp''"
  by (simp add: allowedNet_def fixture_dialer_def)

lemma fixture_udp: "\<not> allowedNet fixture_dialer ''udp''"
  by (simp add: allowedNet_def fixture_dialer_def)

lemma fixture_parse_80: "parsePort fixture_world ''tcp'' ''80'' = (Inr 80, [])"
  by (simp add: parsePort_def dtoi_def is_digit_def digit_val_def big_def parsePort_range_def)

lemma fixture_parse_25: "parsePort fixture_world ''tcp'' ''25'' = (Inr 25, [])"
  by (simp add: parsePort_def dtoi_def is_digit_def digit_val_def big_def parsePort_range_def)

lemma fixture_port_80: "allowedPort fixture_dialer (to_int16 80)"
  by (simp add: allowedPort_def fixture_dialer_def to_int16_def)

lemma fixture_port_25: "\<not> allowedPort fixture_dialer (to_int16 25)"
  by (simp add: allowedPort_def fixture_dialer_def to_int16_def)

lemma fixture_loopback_blocked: "\<not> allowedIP fixture_stdlib fixture_dialer [127, 0, 0, 1]"
  by (simp add: allowedIP_def fixture_dialer_def fixture_stdlib_def)

lemma fixture_public_allowed: "allowedIP fixture_stdlib fixture_dialer [93, 184, 216, 34]"
  by (simp add: allowedIP_def fixture_dialer_def fixture_stdlib_def)

lemma fixture_mixed_blocked:
  "Dial_blocked fixture_stdlib fixture_dialer [[93, 184, 216, 34], [127, 0, 0, 1]]
     = Some [127, 0, 0, 1]"
  by (simp add: fixture_loopback_blocked fixture_public_allowed)

lemma fixture_connect:
  "dialSerial fixture_stdlib fixture_world fixture_dialer ''tcp'' ''example.com:80''
       [[93, 184, 216, 34]] (Itoa fixture_stdlib 80)
     = (Return (Inr 7),
        [Dial_call \<lparr>nd_Timeout = 0, nd_Deadline = 0, nd_KeepAlive = 0, nd_LocalAddr = None\<rparr>
           ''tcp'' ''93.184.216.34:80''])"
proof -
  have dl: "dialSerial_dialer fixture_world fixture_dialer (Suc 0)
      = Return \<lparr>nd_Timeout = 0, nd_Deadline = 0, nd_KeepAlive = 0, nd_LocalAddr = None\<rparr>"
    by (simp add: dialSerial_dialer_def fixture_dialer_def IsZero_def)
  show ?thesis
    by (simp add: dialSerial_def dl)
      (simp add: fixture_stdlib_def fixture_world_def Let_def)
qed

theorem Dial_check_order_witness:
  "Dial fixture_stdlib fixture_world fixture_dialer ''udp'' ''example.com:80''
     = (Return (Inl (Errorf ''dialer.Dial udp example.com:80: invalid net'')), [])
   \<and> Dial fixture_stdlib fixture_world fixture_dialer ''tcp'' ''example.com:25''
     = (Return (Inl (Errorf ''dialer.Dial example.com:25: blocked port'')), [])
   \<and> Dial fixture_stdlib fixture_world fixture_dialer ''tcp'' ''mixed.test:80''
     = (Return (Inl (Errorf ''dialer.Dial mixed.test:80: blocked range (127.0.0.1)'')),
        [LookupIP_call ''mixed.test''])
   \<and> Dial fixture_stdlib fixture_world fixture_dialer ''tcp'' ''example.com:80''
     = (Return (Inr 7),
        [LookupIP_call ''example.com'',
         Dial_call \<lparr>nd_Timeout = 0, nd_Deadline = 0, nd_KeepAlive = 0, nd_LocalAddr = None\<rparr>
           ''tcp'' ''93.184.216.34:80''])"
proof -
  have se: "SplitHostPort fixture_stdlib ''example.com:80'' = Inr (''example.com'', ''80'')"
    by (simp add: fixture_stdlib_def)
  have le: "LookupIP fixture_world ''example.com'' = Inr [[93, 184, 216, 34]]"
    by (simp add: fixture_world_def)
  have ok: "Dial_blocked fixture_stdlib fixture_dialer [[93, 184, 216, 34]] = None"
    by (simp add: fixture_public_allowed)
  have d: "Dial fixture_stdlib fixture_world fixture_dialer ''tcp'' ''example.com:80''
     = (fst (dialSerial fixture_stdlib fixture_world fixture_dialer ''tcp'' ''example.com:80''
               [[93, 184, 216, 34]] (Itoa fixture_stdlib 80)),
        [] @ [LookupIP_call ''example.com'']
          @ snd (dialSerial fixture_stdlib fixture_world fixture_dialer ''tcp'' ''example.com:80''
               [[93, 184, 216, 34]] (Itoa fixture_stdlib 80)))"
    by (rule Dial_check_order [THEN conjunct2, THEN conjunct2, THEN conjunct2, THEN conjunct2,
          THEN conjunct2, THEN conjunct2, THEN conjunct1, rule_format,
          OF conjI [OF fixture_tcp conjI [OF se conjI [OF fixture_parse_80 conjI [OF fixture_port_80
          conjI [OF le ok]]]]]])
  have a: "Dial fixture_stdlib fixture_world fixture_dialer ''udp'' ''example.com:80''
     = (Return (Inl (Errorf (invalid_net_text ''udp'' ''example.com:80''))), [])"
    by (rule Dial_check_order [THEN conjunct1, rule_format, OF fixture_udp])
  have s25: "SplitHostPort fixture_stdlib ''example.com:25'' = Inr (''example.com'', ''25'')"
    by (simp add: fixture_stdlib_def)
  have b: "Dial fixture_stdlib fixture_world fixture_dialer ''tcp'' ''example.com:25''
     = (Return (Inl (Errorf (blocked_port_text ''example.com:25''))), [])"
    by (rule Dial_check_order [THEN conjunct2, THEN conjunct2, THEN conjunct2, THEN conjunct1,
          rule_format, OF conjI [OF fixture_tcp conjI [OF s25 conjI [OF fixture_parse_25
          fixture_port_25]]]])
  have sm: "SplitHostPort fixture_stdlib ''mixed.test:80'' = Inr (''mixed.test'', ''80'')"
    by (simp add: fixture_stdlib_def)
  have lm: "LookupIP fixture_world ''mixed.test'' = Inr [[93, 184, 216, 34], [127, 0, 0, 1]]"
    by (simp add: fixture_world_def)
  have c: "Dial fixture_stdlib fixture_world fixture_dialer ''tcp'' ''mixed.test:80''
     = (Return (Inl (Errorf (blocked_range_text fixture_stdlib ''mixed.test:80'' [127, 0, 0, 1]))),
        [] @ [LookupIP_call ''mixed.test''])"
    by (rule Dial_check_order [THEN conjunct2, THEN conjunct2, THEN conjunct2, THEN conjunct2,
          THEN conjunct2, THEN conjunct1, rule_format,
          OF conjI [OF fixture_tcp conjI [OF sm conjI [OF fixture_parse_80 conjI [OF fixture_port_80
          conjI [OF lm fixture_mixed_blocked]]]]]])
  show ?thesis
    unfolding a b c d
    by (simp add: fixture_connect)
      (simp add: invalid_net_text_def blocked_port_text_def blocked_range_text_def
        fixture_stdlib_def)
qed

text \<open>
  C1. When the transport and port checks pass and the host resolves to a list holding a
  disallowed address, \<open>Dial\<close> returns the blocked-range error naming the first
  disallowed address of the list (the disallowed address itself when it is the only
  one), whatever allowed addresses stand before or after it, and the trace holds no
  connection attempt.
\<close>

theorem Dial_blocked_address_rejects_all:
  assumes "allowedNet d network" and "SplitHostPort L addr = Inr (host, port)"
    and "parsePort W network port = (Inr p, evs)" and "allowedPort d (to_int16 p)"
    and "LookupIP W host = Inr ips" and "ip \<in> set ips" and "\<not> allowedIP L d ip"
  shows "\<exists>ip' pre post. ips = pre @ ip' # post \<and> (\<forall>a\<in>set pre. allowedIP L d a)
           \<and> \<not> allowedIP L d ip'
           \<and> ((\<forall>a\<in>set ips. \<not> allowedIP L d a \<longrightarrow> a = ip) \<longrightarrow> ip' = ip)
           \<and> Dial L W d network addr
               = (Return (Inl (Errorf (blocked_range_text L addr ip'))),
                  evs @ [LookupIP_call host])
           \<and> dial_calls (snd (Dial L W d network addr)) = []"
proof -
  obtain ip' where b: "Dial_blocked L d ips = Some ip'"
    using Dial_blocked_exists [OF assms(6,7)] by blast
  obtain pre post where pp: "ips = pre @ ip' # post" "\<forall>a\<in>set pre. allowedIP L d a"
    "\<not> allowedIP L d ip'"
    using Dial_blocked_Some [OF b] by blast
  have run: "Dial L W d network addr
      = (Return (Inl (Errorf (blocked_range_text L addr ip'))), evs @ [LookupIP_call host])"
    by (rule Dial_range_blocked [OF assms(1-5) b])
  have quiet: "dial_calls (snd (Dial L W d network addr)) = []"
    using parsePort_calls(2) [OF assms(3)] by (simp add: run)
  have only: "(\<forall>a\<in>set ips. \<not> allowedIP L d a \<longrightarrow> a = ip) \<longrightarrow> ip' = ip"
    using pp(1,3) by auto
  from pp run quiet only show ?thesis by blast
qed

theorem Dial_blocked_address_rejects_all_witness:
  "Dial fixture_stdlib fixture_world fixture_dialer ''tcp'' ''mixed.test:80''
     = (Return (Inl (Errorf (blocked_range_text fixture_stdlib ''mixed.test:80'' [127, 0, 0, 1]))),
        [LookupIP_call ''mixed.test''])
   \<and> allowedIP fixture_stdlib fixture_dialer [93, 184, 216, 34]
   \<and> dial_calls (snd (Dial fixture_stdlib fixture_world fixture_dialer ''tcp'' ''mixed.test:80''))
       = []"
proof -
  let ?ips = "[[93, 184, 216, 34], [127, 0, 0, 1]] :: IP list"
  have sm: "SplitHostPort fixture_stdlib ''mixed.test:80'' = Inr (''mixed.test'', ''80'')"
    by (simp add: fixture_stdlib_def)
  have lm: "LookupIP fixture_world ''mixed.test'' = Inr ?ips"
    by (simp add: fixture_world_def)
  have mem: "[127, 0, 0, 1] \<in> set ?ips" by simp
  have only: "\<forall>a\<in>set ?ips. \<not> allowedIP fixture_stdlib fixture_dialer a \<longrightarrow> a = [127, 0, 0, 1]"
    by (simp add: fixture_public_allowed)
  obtain ip' where
    ip': "(\<forall>a\<in>set ?ips. \<not> allowedIP fixture_stdlib fixture_dialer a \<longrightarrow> a = [127, 0, 0, 1])
            \<longrightarrow> ip' = [127, 0, 0, 1]"
    and run: "Dial fixture_stdlib fixture_world fixture_dialer ''tcp'' ''mixed.test:80''
        = (Return (Inl (Errorf (blocked_range_text fixture_stdlib ''mixed.test:80'' ip'))),
           [] @ [LookupIP_call ''mixed.test''])"
    and quiet: "dial_calls (snd (Dial fixture_stdlib fixture_world fixture_dialer ''tcp''
        ''mixed.test:80'')) = []"
    using Dial_blocked_address_rejects_all [OF fixture_tcp sm fixture_parse_80 fixture_port_80
        lm mem fixture_loopback_blocked] by blast
  from ip' only have "ip' = [127, 0, 0, 1]" by blast
  with run quiet show ?thesis by (simp add: fixture_public_allowed)
qed

lemma Dial_only_connects_to_allowed:
  assumes "Dial_call dialer network' address \<in> set (snd (Dial L W d network addr))"
  shows "\<exists>host port p evs ips ip. SplitHostPort L addr = Inr (host, port)
           \<and> parsePort W network port = (Inr p, evs) \<and> LookupIP W host = Inr ips
           \<and> ip \<in> set ips \<and> allowedIP L d ip
           \<and> address = JoinHostPort L (IP_String L ip) (Itoa L p)"
proof -
  have "dial_calls (snd (Dial L W d network addr)) \<noteq> []"
    using assms is_Dial_call.simps(1) by (fastforce simp: dial_calls_def filter_empty_conv)
  from Dial_dial_calls_validated [OF this]
  obtain host port p evs ips where net: "allowedNet d network"
    and hp: "SplitHostPort L addr = Inr (host, port)"
    and pp: "parsePort W network port = (Inr p, evs)"
    and ok: "allowedPort d (to_int16 p)"
    and ips: "LookupIP W host = Inr ips"
    and all: "\<forall>ip\<in>set ips. allowedIP L d ip"
    by blast
  have none: "Dial_blocked L d ips = None" using all by (simp add: Dial_blocked_None_iff)
  have tr: "snd (Dial L W d network addr)
      = evs @ [LookupIP_call host] @ snd (dialSerial L W d network addr ips (Itoa L p))"
    by (simp add: Dial_connects [OF net hp pp ok ips none])
  have "\<forall>ev\<in>set evs. stage ev = 0" using parsePort_calls(4) [OF pp] .
  then have "Dial_call dialer network' address \<notin> set evs" by force
  with assms tr
  have mem: "Dial_call dialer network' address
      \<in> set (snd (dialSerial L W d network addr ips (Itoa L p)))" by auto
  then obtain dialer' where
    "Dial_call dialer network' address
       \<in> set (snd (dialSerial_loop L W dialer' network (Itoa L p) 0 None ips))"
    by (cases "dialSerial_dialer W d (length ips)") (auto simp: snd_dialSerial)
  moreover obtain k where
    "snd (dialSerial_loop L W dialer' network (Itoa L p) 0 None ips)
       = map (attempt_call L dialer' network (Itoa L p)) (take k ips)"
    using dialSerial_loop_calls by blast
  ultimately obtain ip where "ip \<in> set (take k ips)"
    and "Dial_call dialer network' address = attempt_call L dialer' network (Itoa L p) ip"
    by auto
  then have "ip \<in> set ips" and "address = JoinHostPort L (IP_String L ip) (Itoa L p)"
    by (auto simp: attempt_call_def dest: in_set_takeD)
  with hp pp ips all show ?thesis by blast
qed

text \<open>
  C9. \<open>Dial\<close> hands the host text to the resolver unchanged and has no reading of
  address literals of its own. With a resolver that does not read the hexadecimal, the
  decimal or the zero-padded spelling of the blocked 127.0.0.1 as an address, the dotted
  spelling is rejected as a blocked range while each of the other three ends in the
  resolver's error: the four spellings are not rejected alike. What holds for every
  resolver is lemma \<open>Dial_only_connects_to_allowed\<close>: every connection attempt goes
  to a resolved address that passed the address check.
\<close>

theorem Dial_obfuscated_spellings_not_blocked:
  "\<not> allowedIP fixture_stdlib fixture_dialer [127, 0, 0, 1]
   \<and> Dial fixture_stdlib fixture_world fixture_dialer ''tcp'' ''127.0.0.1:80''
     = (Return (Inl (Errorf ''dialer.Dial 127.0.0.1:80: blocked range (127.0.0.1)'')),
        [LookupIP_call ''127.0.0.1''])
   \<and> Dial fixture_stdlib fixture_world fixture_dialer ''tcp'' ''0x7f000001:80''
     = (Return (Inl (NetError ''no such host'')), [LookupIP_call ''0x7f000001''])
   \<and> Dial fixture_stdlib fixture_world fixture_dialer ''tcp'' ''2130706433:80''
     = (Return (Inl (NetError ''no such host'')), [LookupIP_call ''2130706433''])
   \<and> Dial fixture_stdlib fixture_world fixture_dialer ''tcp'' ''000127.0.00000.00001:80''
     = (Return (Inl (NetError ''no such host'')), [LookupIP_call ''000127.0.00000.00001''])"
proof (intro conjI)
  show "\<not> allowedIP fixture_stdlib fixture_dialer [127, 0, 0, 1]"
    by (rule fixture_loopback_blocked)
  have s1: "SplitHostPort fixture_stdlib ''127.0.0.1:80'' = Inr (''127.0.0.1'', ''80'')"
    by (simp add: fixture_stdlib_def)
  have l1: "LookupIP fixture_world ''127.0.0.1'' = Inr [[127, 0, 0, 1]]"
    by (simp add: fixture_world_def)
  have b1: "Dial_blocked fixture_stdlib fixture_dialer [[127, 0, 0, 1]] = Some [127, 0, 0, 1]"
    by (simp add: fixture_loopback_blocked)
  show "Dial fixture_stdlib fixture_world fixture_dialer ''tcp'' ''127.0.0.1:80''
     = (Return (Inl (Errorf ''dialer.Dial 127.0.0.1:80: blocked range (127.0.0.1)'')),
        [LookupIP_call ''127.0.0.1''])"
    using Dial_range_blocked [OF fixture_tcp s1 fixture_parse_80 fixture_port_80 l1 b1]
    by (simp add: blocked_range_text_def fixture_stdlib_def)
  have s2: "SplitHostPort fixture_stdlib ''0x7f000001:80'' = Inr (''0x7f000001'', ''80'')"
    by (simp add: fixture_stdlib_def)
  have l2: "LookupIP fixture_world ''0x7f000001'' = Inl (NetError ''no such host'')"
    by (simp add: fixture_world_def)
  show "Dial fixture_stdlib fixture_world fixture_dialer ''tcp'' ''0x7f000001:80''
     = (Return (Inl (NetError ''no such host'')), [LookupIP_call ''0x7f000001''])"
    using Dial_lookup_error [OF fixture_tcp s2 fixture_parse_80 fixture_port_80 l2]
    by simp
  have s3: "SplitHostPort fixture_stdlib ''2130706433:80'' = Inr (''2130706433'', ''80'')"
    by (simp add: fixture_stdlib_def)
  have l3: "LookupIP fixture_world ''2130706433'' = Inl (NetError ''no such host'')"
    by (simp add: fixture_world_def)
  show "Dial fixture_stdlib fixture_world fixture_dialer ''tcp'' ''2130706433:80''
     = (Return (Inl (NetError ''no such host'')), [LookupIP_call ''2130706433''])"
    using Dial_lookup_error [OF fixture_tcp s3 fixture_parse_80 fixture_port_80 l3]
    by simp
  have s4: "SplitHostPort fixture_stdlib ''000127.0.00000.00001:80''
      = Inr (''000127.0.00000.00001'', ''80'')"
    by (simp add: fixture_stdlib_def)
  have l4: "LookupIP fixture_world ''000127.0.00000.00001'' = Inl (NetError ''no such host'')"
    by (simp add: fixture_world_def)
  show "Dial fixture_stdlib fixture_world fixture_dialer ''tcp'' ''000127.0.00000.00001:80''
     = (Return (Inl (NetError ''no such host'')), [LookupIP_call ''000127.0.00000.00001''])"
    using Dial_lookup_error [OF fixture_tcp s4 fixture_parse_80 fixture_port_80 l4]
    by simp
qed

text \<open>
  C7. With an empty candidate list the serial connector returns the "no IP addresses
  found" error naming the target only when no deadline exists. With a timeout or an
  absolute deadline configured, the division by the number of candidates panics before
  the loop and nothing is returned.
\<close>

theorem dialSerial_empty_list_with_timeout_panics:
  "dialSerial fixture_stdlib fixture_world (fixture_dialer\<lparr>Timeout := 5 * Second\<rparr>)
       ''tcp'' ''nowhere.test:80'' [] ''80''
     = (Panic ''runtime error: integer divide by zero'', [])
   \<and> dialSerial fixture_stdlib fixture_world (fixture_dialer\<lparr>Deadline := 2000 * Second\<rparr>)
       ''tcp'' ''nowhere.test:80'' [] ''80''
     = (Panic ''runtime error: integer divide by zero'', [])
   \<and> dialSerial fixture_stdlib fixture_world fixture_dialer ''tcp'' ''nowhere.test:80'' [] ''80''
     = (Return (Inl (Errorf ''dialer.Dial no IP addresses found: nowhere.test:80'')), [])
   \<and> Dial fixture_stdlib fixture_world (fixture_dialer\<lparr>Timeout := 5 * Second\<rparr>)
       ''tcp'' ''empty.test:80''
     = (Panic ''runtime error: integer divide by zero'', [LookupIP_call ''empty.test''])"
proof (intro conjI)
  have net: "allowedNet (fixture_dialer\<lparr>Timeout := 5 * Second\<rparr>) ''tcp''"
    by (simp add: allowedNet_def fixture_dialer_def)
  have port: "allowedPort (fixture_dialer\<lparr>Timeout := 5 * Second\<rparr>) (to_int16 80)"
    by (simp add: allowedPort_def fixture_dialer_def to_int16_def)
  have se: "SplitHostPort fixture_stdlib ''empty.test:80'' = Inr (''empty.test'', ''80'')"
    by (simp add: fixture_stdlib_def)
  have le: "LookupIP fixture_world ''empty.test'' = Inr []"
    by (simp add: fixture_world_def)
  have none: "Dial_blocked fixture_stdlib (fixture_dialer\<lparr>Timeout := 5 * Second\<rparr>) [] = None"
    by simp
  have budget: "spec_effective_deadline (Now fixture_world 0)
      (Timeout (fixture_dialer\<lparr>Timeout := 5 * Second\<rparr>))
      (Deadline (fixture_dialer\<lparr>Timeout := 5 * Second\<rparr>)) \<noteq> 0"
    by (simp add: spec_effective_deadline_def fixture_dialer_def fixture_world_def Second_def)
  show "Dial fixture_stdlib fixture_world (fixture_dialer\<lparr>Timeout := 5 * Second\<rparr>)
       ''tcp'' ''empty.test:80''
     = (Panic ''runtime error: integer divide by zero'', [LookupIP_call ''empty.test''])"
    using Dial_connects [OF net se fixture_parse_80 port le none]
    by (simp add: dialSerial_empty_budget_panics [OF budget])
  show "dialSerial fixture_stdlib fixture_world (fixture_dialer\<lparr>Timeout := 5 * Second\<rparr>)
       ''tcp'' ''nowhere.test:80'' [] ''80''
     = (Panic ''runtime error: integer divide by zero'', [])"
    by (rule dialSerial_empty_budget_panics)
      (simp add: spec_effective_deadline_def fixture_dialer_def fixture_world_def Second_def)
  show "dialSerial fixture_stdlib fixture_world (fixture_dialer\<lparr>Deadline := 2000 * Second\<rparr>)
       ''tcp'' ''nowhere.test:80'' [] ''80''
     = (Panic ''runtime error: integer divide by zero'', [])"
    by (rule dialSerial_empty_budget_panics)
      (simp add: spec_effective_deadline_def fixture_dialer_def fixture_world_def Second_def)
  show "dialSerial fixture_stdlib fixture_world fixture_dialer ''tcp'' ''nowhere.test:80'' [] ''80''
     = (Return (Inl (Errorf ''dialer.Dial no IP addresses found: nowhere.test:80'')), [])"
    using dialSerial_empty_no_budget [of fixture_world fixture_dialer fixture_stdlib
        "''tcp''" "''nowhere.test:80''" "''80''"]
    by (simp add: spec_effective_deadline_def fixture_dialer_def)
qed

subsection \<open>The default policy\<close>

lemma spec_blocked_all:
  "spec_blocked_ipv4 @ spec_blocked_ipv6 =
     [''0.0.0.0/8'', ''10.0.0.0/8'', ''100.64.0.0/10'', ''127.0.0.0/8'', ''169.254.0.0/16'',
      ''172.16.0.0/12'', ''192.0.0.0/24'', ''192.0.2.0/24'', ''192.88.99.0/24'',
      ''192.168.0.0/16'', ''198.18.0.0/15'', ''198.51.100.0/24'', ''203.0.113.0/24'',
      ''224.0.0.0/4'', ''240.0.0.0/4'', ''255.255.255.255/32'',
      ''::/128'', ''::1/128'', ''100::/64'', ''64:ff9b::/96'', ''2001::/32'', ''2001:10::/28'',
      ''2001:20::/28'', ''2001:db8::/32'', ''2002::/16'', ''fc00::/7'', ''fe80::/10'',
      ''ff00::/8'']"
  unfolding spec_blocked_ipv4_def spec_blocked_ipv6_def by (simp only: append.simps)

lemma DefaultDialer_spec_ranges:
  "DefaultDialer L =
     (case cidrRanges L (spec_blocked_ipv4 @ spec_blocked_ipv6) of
        Panic msg \<Rightarrow> Panic msg
      | Return ranges \<Rightarrow>
          Return \<lparr>AllowedNets = [''tcp''], AllowedPorts = [80, 443, 8080, 8443],
                  BlockedRanges = ranges, BlockPrivate = True, BlockLinkLocal = True,
                  BlockMulticast = True, BlockUnspecified = True, Timeout = 0, Deadline = 0,
                  KeepAlive = 0, LocalAddr = None\<rparr>)"
  unfolding DefaultDialer_def spec_blocked_all ..

lemma cidrRanges_parsed:
  assumes "\<forall>s\<in>set ss. \<exists>ip. ParseCIDR L s = Inr (ip, net s)"
  shows "cidrRanges L ss = Return (map net ss)"
  using assms by (induction ss) (auto simp: cidrRange_def)

lemma DefaultDialer_parsed:
  assumes "\<forall>s\<in>set (spec_blocked_ipv4 @ spec_blocked_ipv6). \<exists>ip. ParseCIDR L s = Inr (ip, net s)"
  shows "DefaultDialer L =
     Return \<lparr>AllowedNets = [''tcp''], AllowedPorts = [80, 443, 8080, 8443],
             BlockedRanges = map net (spec_blocked_ipv4 @ spec_blocked_ipv6),
             BlockPrivate = True, BlockLinkLocal = True, BlockMulticast = True,
             BlockUnspecified = True, Timeout = 0, Deadline = 0, KeepAlive = 0,
             LocalAddr = None\<rparr>"
  by (simp only: DefaultDialer_spec_ranges cidrRanges_parsed [OF assms] go.case)

lemma proxydialer_ranges:
  "(spec_blocked_ipv4 @ spec_blocked_ipv6)[4 := ''169.24.0.0/16''] =
     [''0.0.0.0/8'', ''10.0.0.0/8'', ''100.64.0.0/10'', ''127.0.0.0/8'', ''169.24.0.0/16'',
      ''172.16.0.0/12'', ''192.0.0.0/24'', ''192.0.2.0/24'', ''192.88.99.0/24'',
      ''192.168.0.0/16'', ''198.18.0.0/15'', ''198.51.100.0/24'', ''203.0.113.0/24'',
      ''224.0.0.0/4'', ''240.0.0.0/4'', ''255.255.255.255/32'',
      ''::/128'', ''::1/128'', ''100::/64'', ''64:ff9b::/96'', ''2001::/32'', ''2001:10::/28'',
      ''2001:20::/28'', ''2001:db8::/32'', ''2002::/16'', ''fc00::/7'', ''fe80::/10'',
      ''ff00::/8'']"
  unfolding spec_blocked_all by simp

lemma proxydialer_DefaultDialer_spec_ranges:
  "proxydialer_DefaultDialer L =
     (case cidrRanges L ((spec_blocked_ipv4 @ spec_blocked_ipv6)[4 := ''169.24.0.0/16'']) of
        Panic msg \<Rightarrow> Panic msg
      | Return ranges \<Rightarrow>
          Return \<lparr>pd_AllowedNets = [''tcp''], pd_AllowedPorts = [80, 443, 8080, 8443],
                  pd_BlockedRanges = ranges, pd_Timeout = 0, pd_Deadline = 0,
                  pd_KeepAlive = 0, pd_LocalAddr = None\<rparr>)"
  unfolding proxydialer_DefaultDialer_def proxydialer_ranges ..

lemma proxydialer_DefaultDialer_parsed:
  assumes "\<forall>s\<in>set ((spec_blocked_ipv4 @ spec_blocked_ipv6)[4 := ''169.24.0.0/16'']).
             \<exists>ip. ParseCIDR L s = Inr (ip, net s)"
  shows "proxydialer_DefaultDialer L =
     Return \<lparr>pd_AllowedNets = [''tcp''], pd_AllowedPorts = [80, 443, 8080, 8443],
             pd_BlockedRanges =
               map net ((spec_blocked_ipv4 @ spec_blocked_ipv6)[4 := ''169.24.0.0/16'']),
             pd_Timeout = 0, pd_Deadline = 0, pd_KeepAlive = 0, pd_LocalAddr = None\<rparr>"
  by (simp only: proxydialer_DefaultDialer_spec_ranges cidrRanges_parsed [OF assms] go.case)

lemma reference_spec_ranges:
  "cidrRanges reference_stdlib (spec_blocked_ipv4 @ spec_blocked_ipv6) = Return reference_spec_nets"
  by code_simp

lemma reference_proxydialer_ranges:
  "cidrRanges reference_stdlib ((spec_blocked_ipv4 @ spec_blocked_ipv6)[4 := ''169.24.0.0/16''])
     = Return (reference_spec_nets
                 [4 := \<lparr>net_IP = [169, 24, 0, 0], net_Mask = [255, 255, 0, 0]\<rparr>])"
  by code_simp

lemma reference_link_local_in_spec_nets:
  "\<not> allowedIP_loop reference_stdlib reference_spec_nets [169, 254, 169, 254]"
  by code_simp

lemma reference_link_local_not_in_proxydialer_nets:
  "allowedIP_loop reference_stdlib
     (reference_spec_nets [4 := \<lparr>net_IP = [169, 24, 0, 0], net_Mask = [255, 255, 0, 0]\<rparr>])
     [169, 254, 169, 254]"
  by code_simp

lemma proxydialer_allowedIP_no_flags:
  assumes "\<not> BlockPrivate d" and "\<not> BlockLinkLocal d" and "\<not> BlockMulticast d"
    and "\<not> BlockUnspecified d"
  shows "allowedIP L d ip = proxydialer_allowedIP L (proxydialer_fields d) ip"
  using assms by (simp add: allowedIP_def proxydialer_allowedIP_def proxydialer_fields_def)


lemma reference_DefaultDialer:
  "DefaultDialer reference_stdlib =
     Return \<lparr>AllowedNets = [''tcp''], AllowedPorts = [80, 443, 8080, 8443],
             BlockedRanges = reference_spec_nets,
             BlockPrivate = True, BlockLinkLocal = True, BlockMulticast = True,
             BlockUnspecified = True, Timeout = 0, Deadline = 0, KeepAlive = 0,
             LocalAddr = None\<rparr>"
  by (simp only: DefaultDialer_spec_ranges reference_spec_ranges go.case)

lemma reference_proxydialer_DefaultDialer:
  "proxydialer_DefaultDialer reference_stdlib =
     Return \<lparr>pd_AllowedNets = [''tcp''], pd_AllowedPorts = [80, 443, 8080, 8443],
             pd_BlockedRanges =
               reference_spec_nets
                 [4 := \<lparr>net_IP = [169, 24, 0, 0], net_Mask = [255, 255, 0, 0]\<rparr>],
             pd_Timeout = 0, pd_Deadline = 0, pd_KeepAlive = 0, pd_LocalAddr = None\<rparr>"
  by (simp only: proxydialer_DefaultDialer_spec_ranges reference_proxydialer_ranges go.case)

lemma reference_split:
  "SplitHostPort reference_stdlib ''169.254.169.254:80'' = Inr (''169.254.169.254'', ''80'')"
  by (simp add: reference_stdlib_def fixture_stdlib_def)

lemma fixture_lookup_link_local:
  "LookupIP fixture_world ''169.254.169.254'' = Inr [[169, 254, 169, 254]]"
  by (simp add: fixture_world_def)

text \<open>
  C4. The default policy of the later revision is the claimed one: transport tcp, ports
  80, 443, 8080 and 8443, the specification's sixteen IPv4 and twelve IPv6 ranges in
  order, and the four flags set (lemma \<open>DefaultDialer_parsed\<close>). The default policy
  of the earlier revision is not: its fifth range is 169.24.0.0/16 and it has no flags.
  With the library's range test the link-local address 169.254.169.254 passes the
  earlier revision's address check and is dialled, while the later revision rejects
  it as a blocked range.
\<close>

theorem proxydialer_DefaultDialer_dials_link_local:
  "(\<exists>d. proxydialer_DefaultDialer reference_stdlib = Return d
        \<and> pd_BlockedRanges d ! 4 = \<lparr>net_IP = [169, 24, 0, 0], net_Mask = [255, 255, 0, 0]\<rparr>
        \<and> proxydialer_allowedIP reference_stdlib d [169, 254, 169, 254]
        \<and> proxydialer_Dial reference_stdlib fixture_world d ''tcp'' ''169.254.169.254:80''
            = (Return (Inl (NetError ''connection refused 169.254.169.254:80'')),
               [LookupIP_call ''169.254.169.254'',
                Dial_call \<lparr>nd_Timeout = 0, nd_Deadline = 0, nd_KeepAlive = 0,
                            nd_LocalAddr = None\<rparr> ''tcp'' ''169.254.169.254:80'']))
   \<and> (\<exists>d. DefaultDialer reference_stdlib = Return d
        \<and> BlockedRanges d ! 4 = \<lparr>net_IP = [169, 254, 0, 0], net_Mask = [255, 255, 0, 0]\<rparr>
        \<and> \<not> allowedIP_loop reference_stdlib (BlockedRanges d) [169, 254, 169, 254]
        \<and> BlockPrivate d \<and> BlockLinkLocal d \<and> BlockMulticast d \<and> BlockUnspecified d
        \<and> Dial reference_stdlib fixture_world d ''tcp'' ''169.254.169.254:80''
            = (Return (Inl (Errorf
                 ''dialer.Dial 169.254.169.254:80: blocked range (169.254.169.254)'')),
               [LookupIP_call ''169.254.169.254'']))"
proof (intro conjI)
  let ?old = "\<lparr>pd_AllowedNets = [''tcp''], pd_AllowedPorts = [80, 443, 8080, 8443],
             pd_BlockedRanges =
               reference_spec_nets
                 [4 := \<lparr>net_IP = [169, 24, 0, 0], net_Mask = [255, 255, 0, 0]\<rparr>],
             pd_Timeout = 0, pd_Deadline = 0, pd_KeepAlive = 0, pd_LocalAddr = None\<rparr>"
  have r4: "pd_BlockedRanges ?old ! 4 = \<lparr>net_IP = [169, 24, 0, 0], net_Mask = [255, 255, 0, 0]\<rparr>"
    by (simp add: reference_spec_nets_def)
  have ok: "proxydialer_allowedIP reference_stdlib ?old [169, 254, 169, 254]"
    by (simp add: proxydialer_allowedIP_def reference_link_local_not_in_proxydialer_nets)
  have net: "proxydialer_allowedNet ?old ''tcp''"
    by (simp add: proxydialer_allowedNet_def)
  have port: "proxydialer_allowedPort ?old (to_int16 80)"
    by (simp add: proxydialer_allowedPort_def to_int16_def)
  have dl: "proxydialer_dialSerial_dialer fixture_world ?old (Suc 0)
      = Return \<lparr>nd_Timeout = 0, nd_Deadline = 0, nd_KeepAlive = 0, nd_LocalAddr = None\<rparr>"
    by (simp add: proxydialer_dialSerial_dialer_def IsZero_def)
  have str: "IP_String reference_stdlib [169, 254, 169, 254] = ''169.254.169.254''"
    "JoinHostPort reference_stdlib ''169.254.169.254'' ''80'' = ''169.254.169.254:80''"
    "Itoa reference_stdlib 80 = ''80''"
    by (simp_all add: reference_stdlib_def fixture_stdlib_def)
  have refuse: "net_Dial fixture_world 0
      \<lparr>nd_Timeout = 0, nd_Deadline = 0, nd_KeepAlive = 0, nd_LocalAddr = None\<rparr>
      ''tcp'' ''169.254.169.254:80'' = Inl (NetError ''connection refused 169.254.169.254:80'')"
    by (simp add: fixture_world_def)
  have serial: "proxydialer_dialSerial reference_stdlib fixture_world ?old ''tcp''
        ''169.254.169.254:80'' [[169, 254, 169, 254]] ''80''
      = (Return (Inl (NetError ''connection refused 169.254.169.254:80'')),
         [Dial_call \<lparr>nd_Timeout = 0, nd_Deadline = 0, nd_KeepAlive = 0, nd_LocalAddr = None\<rparr>
            ''tcp'' ''169.254.169.254:80''])"
    by (simp add: proxydialer_dialSerial_def dl str refuse Let_def)
  have run: "proxydialer_Dial reference_stdlib fixture_world ?old ''tcp'' ''169.254.169.254:80''
      = (Return (Inl (NetError ''connection refused 169.254.169.254:80'')),
         [LookupIP_call ''169.254.169.254'',
          Dial_call \<lparr>nd_Timeout = 0, nd_Deadline = 0, nd_KeepAlive = 0, nd_LocalAddr = None\<rparr>
            ''tcp'' ''169.254.169.254:80''])"
    by (simp add: proxydialer_Dial_def net reference_split fixture_parse_80 port
        fixture_lookup_link_local ok str serial)
  from r4 ok run
  show "\<exists>d. proxydialer_DefaultDialer reference_stdlib = Return d
        \<and> pd_BlockedRanges d ! 4 = \<lparr>net_IP = [169, 24, 0, 0], net_Mask = [255, 255, 0, 0]\<rparr>
        \<and> proxydialer_allowedIP reference_stdlib d [169, 254, 169, 254]
        \<and> proxydialer_Dial reference_stdlib fixture_world d ''tcp'' ''169.254.169.254:80''
            = (Return (Inl (NetError ''connection refused 169.254.169.254:80'')),
               [LookupIP_call ''169.254.169.254'',
                Dial_call \<lparr>nd_Timeout = 0, nd_Deadline = 0, nd_KeepAlive = 0,
                            nd_LocalAddr = None\<rparr> ''tcp'' ''169.254.169.254:80''])"
    unfolding reference_proxydialer_DefaultDialer by blast
next
  let ?new = "\<lparr>AllowedNets = [''tcp''], AllowedPorts = [80, 443, 8080, 8443],
             BlockedRanges = reference_spec_nets,
             BlockPrivate = True, BlockLinkLocal = True, BlockMulticast = True,
             BlockUnspecified = True, Timeout = 0, Deadline = 0, KeepAlive = 0,
             LocalAddr = None\<rparr>"
  have r4: "BlockedRanges ?new ! 4 = \<lparr>net_IP = [169, 254, 0, 0], net_Mask = [255, 255, 0, 0]\<rparr>"
    by (simp add: reference_spec_nets_def)
  have inrange: "\<not> allowedIP_loop reference_stdlib (BlockedRanges ?new) [169, 254, 169, 254]"
    by (simp add: reference_link_local_in_spec_nets)
  have flags: "BlockPrivate ?new \<and> BlockLinkLocal ?new \<and> BlockMulticast ?new
      \<and> BlockUnspecified ?new" by simp
  have net: "allowedNet ?new ''tcp''" by (simp add: allowedNet_def)
  have port: "allowedPort ?new (to_int16 80)" by (simp add: allowedPort_def to_int16_def)
  have blocked: "\<not> allowedIP reference_stdlib ?new [169, 254, 169, 254]"
    using inrange by (simp add: allowedIP_def)
  have b: "Dial_blocked reference_stdlib ?new [[169, 254, 169, 254]] = Some [169, 254, 169, 254]"
    using blocked by simp
  have str: "IP_String reference_stdlib [169, 254, 169, 254] = ''169.254.169.254''"
    by (simp add: reference_stdlib_def fixture_stdlib_def)
  have run: "Dial reference_stdlib fixture_world ?new ''tcp'' ''169.254.169.254:80''
      = (Return (Inl (Errorf ''dialer.Dial 169.254.169.254:80: blocked range (169.254.169.254)'')),
         [LookupIP_call ''169.254.169.254''])"
    using Dial_range_blocked [OF net reference_split fixture_parse_80 port
        fixture_lookup_link_local b]
    by (simp add: blocked_range_text_def str)
  from r4 inrange flags run
  show "\<exists>d. DefaultDialer reference_stdlib = Return d
        \<and> BlockedRanges d ! 4 = \<lparr>net_IP = [169, 254, 0, 0], net_Mask = [255, 255, 0, 0]\<rparr>
        \<and> \<not> allowedIP_loop reference_stdlib (BlockedRanges d) [169, 254, 169, 254]
        \<and> BlockPrivate d \<and> BlockLinkLocal d \<and> BlockMulticast d \<and> BlockUnspecified d
        \<and> Dial reference_stdlib fixture_world d ''tcp'' ''169.254.169.254:80''
            = (Return (Inl (Errorf
                 ''dialer.Dial 169.254.169.254:80: blocked range (169.254.169.254)'')),
               [LookupIP_call ''169.254.169.254''])"
    unfolding reference_DefaultDialer by blast
qed

end
